theory Spec2Isabelle
  imports Main "HOL-Library.Sublist"
begin

section \<open>What the repository's code calls and the sources do not contain\<close>

text \<open>
  The packages \<^verbatim>\<open>time\<close> and \<^verbatim>\<open>os\<close> and the floating-point part of \<^verbatim>\<open>strconv\<close>
  belong to the Go standard library, and the package \<^verbatim>\<open>internal/syslogparser\<close> (the
  primitive scanners \<^verbatim>\<open>ParsePriority\<close>, \<^verbatim>\<open>ParseVersion\<close>, \<^verbatim>\<open>ParseHostname\<close>,
  \<^verbatim>\<open>Parse2Digits\<close> and the constant \<^verbatim>\<open>NO_VERSION\<close>) is not among the sources. Every
  function of the repository below takes them as a record of operations, over an abstract
  type \<open>'t\<close> of instants (\<^verbatim>\<open>time.Time\<close>) and an abstract type \<open>'loc\<close> of locations
  (\<^verbatim>\<open>*time.Location\<close>). A theorem stated for an arbitrary record holds whatever these
  operations do. The wall clock is read as one instant \<open>time_Now\<close> for the duration of
  one call of a parser or of the receiver.
\<close>

datatype error =
    ErrEOL | ErrTimestampUnknownFormat | ErrSonicOSFormat | ErrFortiOSFormat
  | ErrCiscoASAFormat | ErrCiscoASARFC5424
  | ErrYearInvalid | ErrMonthInvalid | ErrDayInvalid | ErrHourInvalid | ErrMinuteInvalid
  | ErrSecondInvalid | ErrSecFracInvalid | ErrTimeZoneInvalid | ErrInvalidTimeFormat
  | ErrInvalidAppName | ErrInvalidProcId | ErrInvalidMsgId | ErrNoStructuredData
  | rfc5424_ErrCiscoASARFC5424
  | ErrorfOf error string
  | Errorf string string
  | ErrScanner string
  | ErrLibrary string

text \<open>
  The first six are the sentinels of \<^verbatim>\<open>syslogparser\<close> that the sources name, the next
  fourteen the package-level errors of \<^verbatim>\<open>rfc5424\<close>. \<open>ErrorfOf e s\<close> is the fresh error
  \<^verbatim>\<open>fmt.Errorf("%v %s", e, s)\<close>, which \<^verbatim>\<open>errors.Is\<close> tells apart from \<open>e\<close> (the verb is
  not \<^verbatim>\<open>%w\<close>); \<open>Errorf msg s\<close> is \<^verbatim>\<open>fmt.Errorf\<close> with the message \<open>msg\<close> about \<open>s\<close>.
  \<open>ErrScanner\<close> is an error of a primitive scanner, \<open>ErrLibrary\<close> one of the
  standard library.
\<close>

record Priority =
  Priority_P :: int
  Facility_Value :: int
  Severity_Value :: int

text \<open>
  A \<^verbatim>\<open>float64\<close> of the parsers is the zero value or the result of
  \<^verbatim>\<open>strconv.ParseFloat\<close> on a text; it is kept as that text, and what floating-point
  arithmetic makes of it is left to the record of operations.
\<close>

datatype float64 = FloatZero | FloatOf string

record ('t, 'loc) env =
  time_Now :: 't
  time_Zero :: 't
  time_UTC :: "'t \<Rightarrow> 't"
  time_Round_Second :: "'t \<Rightarrow> 't"
  time_ParseInLocation :: "string \<Rightarrow> string \<Rightarrow> 'loc \<Rightarrow> 't option"
  time_Parse :: "string \<Rightarrow> string \<Rightarrow> 't option"
  time_Unix :: "int \<Rightarrow> int \<Rightarrow> 't"
  time_Date :: "int \<Rightarrow> int \<Rightarrow> int \<Rightarrow> int \<Rightarrow> int \<Rightarrow> int \<Rightarrow> int \<Rightarrow> 'loc \<Rightarrow> 't"
  time_Year :: "'t \<Rightarrow> int"
  time_Month :: "'t \<Rightarrow> int"
  time_Day :: "'t \<Rightarrow> int"
  time_Hour :: "'t \<Rightarrow> int"
  time_Minute :: "'t \<Rightarrow> int"
  time_Second :: "'t \<Rightarrow> int"
  time_Nanosecond :: "'t \<Rightarrow> int"
  time_Location :: "'t \<Rightarrow> 'loc"
  time_UTC_loc :: 'loc
  time_Local :: 'loc
  os_Hostname :: "string option"
  strconv_ParseFloat_ok :: "string \<Rightarrow> bool"
  float_nanos :: "float64 \<Rightarrow> int"
  float_frac_text :: "float64 \<Rightarrow> string"
  ParsePriority :: "string \<Rightarrow> nat \<Rightarrow> nat \<Rightarrow> (error + Priority) \<times> nat"
  ParseVersion :: "string \<Rightarrow> nat \<Rightarrow> nat \<Rightarrow> (error + int) \<times> nat"
  ParseHostname :: "string \<Rightarrow> nat \<Rightarrow> nat \<Rightarrow> (error + string) \<times> nat"
  Parse2Digits :: "string \<Rightarrow> nat \<Rightarrow> nat \<Rightarrow> int \<Rightarrow> int \<Rightarrow> error \<Rightarrow> (error + int) \<times> nat"
  NO_VERSION :: int

text \<open>
  \<open>time_ParseInLocation layout s loc\<close> and \<open>time_Parse layout s\<close> are \<open>None\<close> when the
  library returns an error. \<open>strconv_ParseFloat_ok s\<close> says that \<^verbatim>\<open>strconv.ParseFloat(s, 64)\<close>
  returns no error; \<open>float_nanos f\<close> is \<^verbatim>\<open>int64(f * 1e9)\<close>; \<open>float_frac_text f\<close> is
  \<^verbatim>\<open>strconv.FormatFloat(frac, 'f', 9, 64)\<close> for the fractional part \<^verbatim>\<open>frac\<close> that
  \<^verbatim>\<open>math.Modf(f)\<close> returns. A scanner gets the buffer, the cursor and the length, and
  returns its value or its error together with the cursor it leaves.
\<close>

text \<open>\<^verbatim>\<open>strings.Index\<close>: the byte index of the first occurrence, \<open>-1\<close> when there is none.\<close>

fun strings_Index :: "string \<Rightarrow> string \<Rightarrow> int" where
  "strings_Index [] sub = (if sub = [] then 0 else - 1)"
| "strings_Index (c # t) sub =
     (if prefix sub (c # t) then 0
      else (let r = strings_Index t sub in if r < 0 then - 1 else r + 1))"

definition strings_Contains :: "string \<Rightarrow> string \<Rightarrow> bool" where
  "strings_Contains s sub = (0 \<le> strings_Index s sub)"

section \<open>The record handed to the handler\<close>

text \<open>
  \<^verbatim>\<open>LogParts\<close> is \<^verbatim>\<open>map[string]interface{}\<close>. The dynamic values the parsers store are
  strings, ints and instants; a missing key reads as the nil interface.
\<close>

datatype 't iface = VNil | VString string | VInt int | VTime 't

type_synonym 't LogParts = "string \<rightharpoonup> 't iface"

text \<open>Reading \<^verbatim>\<open>m[k]\<close> from a Go map: the zero value (nil) when the key is absent.\<close>

definition map_read :: "'t LogParts \<Rightarrow> string \<Rightarrow> 't iface" where
  "map_read m k = (case m k of None \<Rightarrow> VNil | Some v \<Rightarrow> v)"

text \<open>
  A Go function that indexes a slice out of range panics; \<open>Panic\<close> is that outcome and
  \<open>Ret\<close> an ordinary return.
\<close>

datatype 'a outcome = Panic | Ret 'a

section \<open>The RFC 6587 octet-counted framer\<close>

text \<open>
  Modelled from the spec: \<^verbatim>\<open>syslogparser.IsDigit\<close>, the digit test of the primitive
  scanners (the package \<^verbatim>\<open>internal/syslogparser\<close> itself is not among the sources).
\<close>

definition IsDigit :: "char \<Rightarrow> bool" where
  "IsDigit c = (c \<in> set ''0123456789'')"

definition digit_val :: "char \<Rightarrow> nat" where
  "digit_val c = of_char c - 48"

text \<open>The value of a string of decimal digits, most significant first.\<close>

definition dec_val :: "string \<Rightarrow> nat" where
  "dec_val ds = foldl (\<lambda>a c. 10 * a + digit_val c) 0 ds"

text \<open>The decimal text of a length, as \<^verbatim>\<open>fmt.Fprintf(buf, "%d %s", len(i), i)\<close> prints it.\<close>

function itoa :: "nat \<Rightarrow> string" where
  "itoa n = (if n < 10 then [''0123456789'' ! n] else itoa (n div 10) @ [''0123456789'' ! (n mod 10)])"
  by pat_completeness auto
termination
  by (relation "measure id") auto

definition frame :: "string \<Rightarrow> string" where
  "frame m = itoa (length m) @ '' '' @ m"

text \<open>
  Modelled from the spec: the split function \<^verbatim>\<open>RFC6587.GetSplitFunc()\<close> (the file
  \<^verbatim>\<open>format/rfc6587.go\<close> is not among the sources, only its test is). It reads decimal
  digits until a space, takes them as the octet count \<open>n\<close>, and emits exactly the next
  \<open>n\<close> bytes; with fewer than \<open>n\<close> bytes and the stream not ended it requests more input;
  it fails when the count field is not digits followed by a space, or when the input ends
  before \<open>n\<close> payload bytes. \<open>Token adv tok\<close> is the token with the number of bytes to
  consume.
\<close>

datatype split_result = MoreData | Token nat string | FramingError

definition rfc6587_split :: "string \<Rightarrow> bool \<Rightarrow> split_result" where
  "rfc6587_split data atEOF =
     (let ds = takeWhile IsDigit data; rest = dropWhile IsDigit data in
      case rest of
        [] \<Rightarrow> if atEOF \<and> data \<noteq> [] then FramingError else MoreData
      | c # payload \<Rightarrow>
          if c \<noteq> CHR '' '' \<or> ds = [] then FramingError
          else (let n = dec_val ds in
                if n \<le> length payload then Token (length ds + 1 + n) (take n payload)
                else if atEOF then FramingError else MoreData))"

text \<open>
  The scanner that drives the split function, one token per \<^verbatim>\<open>Scan()\<close>: \<open>buf\<close> is what
  has been read and not yet consumed, \<open>chunks\<close> are the reads still to come (the stream
  has ended when there are none). The result is the tokens of the successful scans, in
  order, and how the first unsuccessful scan ended.
\<close>

datatype scan_end = EndOfInput | ScanFailed

function scan_all :: "string \<Rightarrow> string list \<Rightarrow> string list \<times> scan_end" where
  "scan_all buf chunks =
     (case rfc6587_split buf (chunks = []) of
        Token adv tok \<Rightarrow> (let (toks, e) = scan_all (drop adv buf) chunks in (tok # toks, e))
      | FramingError \<Rightarrow> ([], ScanFailed)
      | MoreData \<Rightarrow> (case chunks of [] \<Rightarrow> ([], EndOfInput) | c # cs \<Rightarrow> scan_all (buf @ c) cs))"
  by pat_completeness auto
termination
proof (relation "measure (\<lambda>(buf, chunks). length buf + sum_list (map length chunks) + length chunks)")
  show "wf (measure (\<lambda>(buf, chunks). length buf + sum_list (map length chunks) + length chunks))"
    by simp
next
  fix buf :: string and chunks :: "string list" and adv tok
  assume a: "rfc6587_split buf (chunks = []) = Token adv tok"
  have "length (takeWhile IsDigit buf) + length (dropWhile IsDigit buf) = length buf"
    by (metis length_append takeWhile_dropWhile_id)
  with a have "0 < adv \<and> adv \<le> length buf"
    by (auto simp: rfc6587_split_def Let_def split: list.splits if_splits)
  then show "((drop adv buf, chunks), (buf, chunks))
      \<in> measure (\<lambda>(buf, chunks). length buf + sum_list (map length chunks) + length chunks)"
    by auto
next
  fix buf :: string and chunks :: "string list" and c cs
  assume "chunks = c # cs"
  then show "((buf @ c, cs), (buf, chunks))
      \<in> measure (\<lambda>(buf, chunks). length buf + sum_list (map length chunks) + length chunks)"
    by simp
qed

text \<open>
  The leftover bytes begin with a complete frame: a non-empty run of digits, one space,
  and at least as many further bytes as the digits say.
\<close>

definition begins_with_frame :: "string \<Rightarrow> bool" where
  "begins_with_frame xs =
     (let ds = takeWhile IsDigit xs; rest = dropWhile IsDigit xs in
      ds \<noteq> [] \<and> (case rest of [] \<Rightarrow> False | c # p \<Rightarrow> c = CHR '' '' \<and> dec_val ds \<le> length p))"

section \<open>The regular expressions of the parsers\<close>

text \<open>
  Each compiled pattern of the sources is written out as the function that
  \<^verbatim>\<open>FindStringSubmatch\<close> computes for it: \<open>None\<close> when the pattern does not match,
  otherwise the text of its capture group (the empty text for a group that took no part
  in the match, as the library reports it). \<^verbatim>\<open>\d\<close> is an ASCII digit, \<^verbatim>\<open>\w\<close> an ASCII
  letter, digit or underscore. A pattern without \<^verbatim>\<open>^\<close> is tried at every position from
  the left, and the leftmost match wins.
\<close>

definition dquote :: char where
  "dquote = CHR 0x22"

definition is_word :: "char \<Rightarrow> bool" where
  "is_word c =
     (c \<in> set ''0123456789ABCDEFGHIJKLMNOPQRSTUVWXYZabcdefghijklmnopqrstuvwxyz_'')"

definition is_upper :: "char \<Rightarrow> bool" where
  "is_upper c = (c \<in> set ''ABCDEFGHIJKLMNOPQRSTUVWXYZ'')"

fun find_first :: "(string \<Rightarrow> 'a option) \<Rightarrow> string \<Rightarrow> 'a option" where
  "find_first f [] = f []"
| "find_first f (c # s) = (case f (c # s) of Some r \<Rightarrow> Some r | None \<Rightarrow> find_first f s)"

text \<open>\<^verbatim>\<open><\d+>\<close> at the head of \<open>s\<close>: what follows the closing bracket.\<close>

definition rx_pri :: "string \<Rightarrow> string option" where
  "rx_pri s =
     (case s of
        [] \<Rightarrow> None
      | c # r \<Rightarrow>
          if c = CHR ''<'' \<and> takeWhile IsDigit r \<noteq> [] \<and> prefix ''>'' (dropWhile IsDigit r)
          then Some (tl (dropWhile IsDigit r)) else None)"

text \<open>
  A run of fixed width at the head of \<open>s\<close>: in \<open>shape\<close>, \<open>d\<close> stands for \<^verbatim>\<open>\d\<close>,
  \<open>w\<close> for \<^verbatim>\<open>\w\<close>, and every other character for itself.
\<close>

definition matches_shape :: "string \<Rightarrow> string \<Rightarrow> bool" where
  "matches_shape shape s =
     (length shape \<le> length s \<and>
      list_all (\<lambda>(p, c). if p = CHR ''d'' then IsDigit c
                         else if p = CHR ''w'' then is_word c else p = c) (zip shape s))"

text \<open>\<^verbatim>\<open>ciscoASARegexp\<close>, the pattern \<^verbatim>\<open><\d+>:\<close> (not anchored), as \<^verbatim>\<open>MatchString\<close>.\<close>

definition ciscoASARegexp_MatchString :: "string \<Rightarrow> bool" where
  "ciscoASARegexp_MatchString s =
     (find_first (\<lambda>u. case rx_pri u of
                         None \<Rightarrow> None
                       | Some r \<Rightarrow> if prefix '':'' r then Some () else None) s \<noteq> None)"

text \<open>
  \<^verbatim>\<open>(\d{4}-\d{2}-\d{2}T\d{2}:\d{2}:\d{2}(?:\.\d+)?Z)\<close> at the head of \<open>r\<close>.
\<close>

definition rx_iso_frac_Z :: "string \<Rightarrow> string option" where
  "rx_iso_frac_Z r =
     (if matches_shape ''dddd-dd-ddTdd:dd:dd'' r then
        (let t = drop 19 r in
         if prefix ''.'' t \<and> takeWhile IsDigit (tl t) \<noteq> []
              \<and> prefix ''Z'' (dropWhile IsDigit (tl t))
         then Some (take 19 r @ ''.'' @ takeWhile IsDigit (tl t) @ ''Z'')
         else if prefix ''Z'' t then Some (take 19 r @ ''Z'') else None)
      else None)"

text \<open>
  \<^verbatim>\<open>ciscoASATimestampRegexp\<close> and \<^verbatim>\<open>ciscoASA_RFC5424Regexp\<close> of package rfc3164, both
  \<^verbatim>\<open>^<\d+>(\d{4}-\d{2}-\d{2}T\d{2}:\d{2}:\d{2}(?:\.\d+)?Z)\<close>.
\<close>

definition rfc3164_ciscoASATimestampRegexp :: "string \<Rightarrow> string option" where
  "rfc3164_ciscoASATimestampRegexp s =
     (case rx_pri s of None \<Rightarrow> None | Some r \<Rightarrow> rx_iso_frac_Z r)"

definition rfc3164_checkCiscoASA_RFC5424 :: "string \<Rightarrow> bool" where
  "rfc3164_checkCiscoASA_RFC5424 buff = (rfc3164_ciscoASATimestampRegexp buff \<noteq> None)"

text \<open>
  \<^verbatim>\<open>ciscoASATimestampCaptureRe\<close>,
  \<^verbatim>\<open>^<\d+>:(?:(\w{3} \d{2} \d{2}:\d{2}:\d{2}(?: [A-Z]+)?) )?\<close>. The optional groups are
  greedy: the zone name is taken when a space follows it, else the stamp alone when a space
  follows it, else nothing.
\<close>

definition ciscoASATimestampCaptureRe :: "string \<Rightarrow> string option" where
  "ciscoASATimestampCaptureRe s =
     (case rx_pri s of
        None \<Rightarrow> None
      | Some r \<Rightarrow>
          if \<not> prefix '':'' r then None
          else (let u = tl r in
                if matches_shape ''www dd dd:dd:dd'' u then
                  (let v = drop 15 u; z = takeWhile is_upper (drop 1 v) in
                   if prefix '' '' v \<and> z \<noteq> [] \<and> prefix '' '' (dropWhile is_upper (drop 1 v))
                   then Some (take 15 u @ '' '' @ z)
                   else if prefix '' '' v then Some (take 15 u) else Some '''')
                else Some ''''))"

text \<open>\<^verbatim>\<open>sonicWallTimestampCaptureRe\<close>, \<^verbatim>\<open>time="([^"]+)"\<close>.\<close>

definition sonicWallTimestampCaptureRe :: "string \<Rightarrow> string option" where
  "sonicWallTimestampCaptureRe s =
     find_first (\<lambda>u. if prefix (''time='' @ [dquote]) u then
                        (let r = drop 6 u; run = takeWhile (\<lambda>c. c \<noteq> dquote) r in
                         if run \<noteq> [] \<and> dropWhile (\<lambda>c. c \<noteq> dquote) r \<noteq> [] then Some run
                         else None)
                      else None) s"

text \<open>\<^verbatim>\<open>sonicWallHostnameCaptureRe\<close>, \<^verbatim>\<open>fw=([0-9.]+)\<close>.\<close>

definition sonicWallHostnameCaptureRe :: "string \<Rightarrow> string option" where
  "sonicWallHostnameCaptureRe s =
     find_first (\<lambda>u. if prefix ''fw='' u then
                        (let run = takeWhile (\<lambda>c. IsDigit c \<or> c = CHR ''.'') (drop 3 u) in
                         if run \<noteq> [] then Some run else None)
                      else None) s"

text \<open>\<^verbatim>\<open>fortiOSTimestampCaptureRe\<close>, \<^verbatim>\<open>eventtime=(\d+)\<close>.\<close>

definition fortiOSTimestampCaptureRe :: "string \<Rightarrow> string option" where
  "fortiOSTimestampCaptureRe s =
     find_first (\<lambda>u. if prefix ''eventtime='' u then
                        (let run = takeWhile IsDigit (drop 10 u) in
                         if run \<noteq> [] then Some run else None)
                      else None) s"

text \<open>
  \<^verbatim>\<open>ciscoASATimestampRegexp\<close> and \<^verbatim>\<open>ciscoASA_RFC5424Regexp\<close> of package rfc5424, both
  \<^verbatim>\<open>^<\d+>(\d{4}-\d{2}-\d{2}T\d{2}:\d{2}:\d{2}Z)\<close>.
\<close>

definition rfc5424_ciscoASATimestampRegexp :: "string \<Rightarrow> string option" where
  "rfc5424_ciscoASATimestampRegexp s =
     (case rx_pri s of
        None \<Rightarrow> None
      | Some r \<Rightarrow> if matches_shape ''dddd-dd-ddTdd:dd:ddZ'' r then Some (take 20 r) else None)"

definition rfc5424_checkCiscoASA_RFC5424 :: "string \<Rightarrow> bool" where
  "rfc5424_checkCiscoASA_RFC5424 buff = (rfc5424_ciscoASATimestampRegexp buff \<noteq> None)"

section \<open>The number conversions of strconv\<close>

text \<open>
  \<^verbatim>\<open>strconv.Atoi\<close> and \<^verbatim>\<open>strconv.ParseInt(s, 10, 64)\<close>: an optional sign, then one or
  more decimal digits, and a value that fits 64 bits; \<open>None\<close> is the error.
\<close>

definition strconv_ParseInt :: "string \<Rightarrow> int option" where
  "strconv_ParseInt s =
     (let neg = prefix ''-'' s;
          ds = (if prefix ''-'' s \<or> prefix ''+'' s then tl s else s);
          v = (if neg then - int (dec_val ds) else int (dec_val ds)) in
      if ds \<noteq> [] \<and> list_all IsDigit ds \<and> - (2 ^ 63) \<le> v \<and> v < 2 ^ 63 then Some v else None)"

section \<open>The RFC 3164 parser\<close>

record 't rfc3164_header =
  hdr3164_timestamp :: 't
  hdr3164_hostname :: string

record rfc3164message =
  msg_tag :: string
  msg_content :: string

record ('t, 'loc) rfc3164_Parser =
  p3164_buff :: string
  p3164_cursor :: nat
  p3164_l :: nat
  p3164_priority :: Priority
  p3164_version :: int
  p3164_header :: "'t rfc3164_header"
  p3164_message :: rfc3164message
  p3164_location :: 'loc
  p3164_skipTag :: bool

text \<open>The layouts \<^verbatim>\<open>time.Stamp\<close>, \<^verbatim>\<open>time.RFC3339\<close> and \<^verbatim>\<open>time.RFC3339Nano\<close>.\<close>

definition time_Stamp :: string where
  "time_Stamp = ''Jan _2 15:04:05''"

definition time_RFC3339 :: string where
  "time_RFC3339 = ''2006-01-02T15:04:05Z07:00''"

definition time_RFC3339Nano :: string where
  "time_RFC3339Nano = ''2006-01-02T15:04:05.999999999Z07:00''"

definition rfc3164_NewParser :: "('t, 'loc) env \<Rightarrow> string \<Rightarrow> ('t, 'loc) rfc3164_Parser" where
  "rfc3164_NewParser env buff =
     \<lparr> p3164_buff = buff, p3164_cursor = 0, p3164_l = length buff,
       p3164_priority = \<lparr> Priority_P = 0, Facility_Value = 0, Severity_Value = 0 \<rparr>,
       p3164_version = 0,
       p3164_header = \<lparr> hdr3164_timestamp = time_Zero env, hdr3164_hostname = '''' \<rparr>,
       p3164_message = \<lparr> msg_tag = '''', msg_content = '''' \<rparr>,
       p3164_location = time_Local env, p3164_skipTag = False \<rparr>"

text \<open>\<^verbatim>\<open>fixTimestampIfNeeded\<close>: a stamp without a year gets the current year.\<close>

definition fixTimestampIfNeeded :: "('t, 'loc) env \<Rightarrow> 't \<Rightarrow> 't" where
  "fixTimestampIfNeeded env ts =
     (let now = time_UTC env (time_Now env);
          y = (if time_Year env ts = 0 then time_Year env now else time_Year env ts)
      in time_Date env y (time_Month env ts) (time_Day env ts) (time_Hour env ts)
           (time_Minute env ts) (time_Second env ts) (time_Nanosecond env ts)
           (time_Location env ts))"

text \<open>
  The two layout loops of the dialect parsers: the first layout that parses wins and its
  result is year-repaired; \<open>None\<close> when the last layout tried has failed.
\<close>

fun parse_layouts :: "('t, 'loc) env \<Rightarrow> string list \<Rightarrow> string \<Rightarrow> 'loc \<Rightarrow> 't option" where
  "parse_layouts env [] timestamp loc = None"
| "parse_layouts env (layout # rest) timestamp loc =
     (case time_ParseInLocation env layout timestamp loc of
        Some parsedTime \<Rightarrow> Some (fixTimestampIfNeeded env parsedTime)
      | None \<Rightarrow> parse_layouts env rest timestamp loc)"

definition parseCiscoASAHeader ::
  "('t, 'loc) env \<Rightarrow> ('t, 'loc) rfc3164_Parser \<Rightarrow> error + 't rfc3164_header" where
  "parseCiscoASAHeader env p =
     (let timestamp = (case ciscoASATimestampCaptureRe (p3164_buff p) of
                         None \<Rightarrow> '''' | Some m \<Rightarrow> m) in
      if timestamp = '''' then
        Inr \<lparr> hdr3164_timestamp = time_UTC env (time_Now env), hdr3164_hostname = '''' \<rparr>
      else
        (case parse_layouts env [''Jan 02 15:04:05 MST'', ''Jan 02 15:04:05''] timestamp
                (p3164_location p) of
           None \<Rightarrow> Inl (Errorf ''failed to parse time in Cisco ASA log'' (p3164_buff p))
         | Some parsedTime \<Rightarrow>
             Inr \<lparr> hdr3164_timestamp = parsedTime, hdr3164_hostname = '''' \<rparr>))"

definition parseSonicWallHeader ::
  "('t, 'loc) env \<Rightarrow> ('t, 'loc) rfc3164_Parser \<Rightarrow> error + 't rfc3164_header" where
  "parseSonicWallHeader env p =
     (let timestamp = (case sonicWallTimestampCaptureRe (p3164_buff p) of
                         None \<Rightarrow> '''' | Some m \<Rightarrow> m);
          hostname = (case sonicWallHostnameCaptureRe (p3164_buff p) of
                        None \<Rightarrow> '''' | Some m \<Rightarrow> m) in
      case parse_layouts env [''2006-01-02 15:04:05 MST'', ''2006-01-02 15:04:05''] timestamp
             (p3164_location p) of
        None \<Rightarrow> Inl (Errorf ''failed to parse time in SonicWall log'' (p3164_buff p))
      | Some parsedTime \<Rightarrow>
          Inr \<lparr> hdr3164_timestamp = parsedTime, hdr3164_hostname = hostname \<rparr>)"

text \<open>
  In \<^verbatim>\<open>parseFortiOSHeader\<close> the quotient and the remainder are Go's, which truncate
  towards zero; the captured digits carry no sign, so the number is not negative and they
  agree with \<open>div\<close> and \<open>mod\<close>.
\<close>

definition parseFortiOSHeader ::
  "('t, 'loc) env \<Rightarrow> ('t, 'loc) rfc3164_Parser \<Rightarrow> error + 't rfc3164_header" where
  "parseFortiOSHeader env p =
     (let timestamp = (case fortiOSTimestampCaptureRe (p3164_buff p) of
                         None \<Rightarrow> '''' | Some m \<Rightarrow> m) in
      case strconv_ParseInt timestamp of
        None \<Rightarrow> Inl (Errorf ''failed to convert FortiOS event time to int'' (p3164_buff p))
      | Some timeNum \<Rightarrow>
          (let seconds = timeNum div 1000000000;
               nanoseconds = timeNum mod 1000000000;
               parsedTime = time_UTC env (time_Unix env seconds nanoseconds)
           in Inr \<lparr> hdr3164_timestamp = fixTimestampIfNeeded env parsedTime,
                    hdr3164_hostname = '''' \<rparr>))"

definition parseCiscoASA_RFC5424 ::
  "('t, 'loc) env \<Rightarrow> ('t, 'loc) rfc3164_Parser \<Rightarrow> error + 't rfc3164_header" where
  "parseCiscoASA_RFC5424 env p =
     (case rfc3164_ciscoASATimestampRegexp (p3164_buff p) of
        Some timestampStr \<Rightarrow>
          (if strings_Contains timestampStr ''.'' then
             (case time_Parse env time_RFC3339Nano timestampStr of
                None \<Rightarrow> Inl (Errorf ''failed to parse cisco ASA RFC5424 dot timestamp'' '''')
              | Some parsedTime \<Rightarrow>
                  Inr \<lparr> hdr3164_timestamp = fixTimestampIfNeeded env parsedTime,
                        hdr3164_hostname = '''' \<rparr>)
           else
             (case time_Parse env time_RFC3339 timestampStr of
                None \<Rightarrow> Inl (Errorf ''failed to parse cisco ASA RFC5424 timestamp'' '''')
              | Some parsedTime \<Rightarrow>
                  Inr \<lparr> hdr3164_timestamp = fixTimestampIfNeeded env parsedTime,
                        hdr3164_hostname = '''' \<rparr>))
      | None \<Rightarrow> Inl (Errorf ''failed to parse cisco ASA RFC5424 timestamp'' ''no match''))"

text \<open>
  \<^verbatim>\<open>movePastContent\<close>: the cursor moves by the length of the rest of the buffer with the
  spaces at both ends trimmed; the error is always \<^verbatim>\<open>ErrEOL\<close>.
\<close>

definition bytes_Trim_spaces :: "string \<Rightarrow> string" where
  "bytes_Trim_spaces s =
     rev (dropWhile (\<lambda>c. c = CHR '' '') (rev (dropWhile (\<lambda>c. c = CHR '' '') s)))"

definition rfc3164_movePastContent ::
  "('t, 'loc) rfc3164_Parser \<Rightarrow> error \<times> ('t, 'loc) rfc3164_Parser" where
  "rfc3164_movePastContent p =
     (if p3164_l p < p3164_cursor p then (ErrEOL, p)
      else (ErrEOL,
            p\<lparr> p3164_cursor := p3164_cursor p
                 + length (bytes_Trim_spaces
                     (take (p3164_l p - p3164_cursor p) (drop (p3164_cursor p) (p3164_buff p)))) \<rparr>))"

text \<open>
  The layout loop of \<^verbatim>\<open>parseTimestamp\<close>: a layout longer than the rest of the buffer is
  skipped; the result is the parsed instant with the length of its layout.
\<close>

fun rfc3164_tryFormats ::
  "('t, 'loc) env \<Rightarrow> ('t, 'loc) rfc3164_Parser \<Rightarrow> string list \<Rightarrow> ('t \<times> nat) option" where
  "rfc3164_tryFormats env p [] = None"
| "rfc3164_tryFormats env p (tsFmt # rest) =
     (let tsFmtLen = length tsFmt in
      if p3164_l p < p3164_cursor p + tsFmtLen then rfc3164_tryFormats env p rest
      else (case time_ParseInLocation env tsFmt
                   (take tsFmtLen (drop (p3164_cursor p) (p3164_buff p))) (p3164_location p) of
              Some ts \<Rightarrow> Some (ts, tsFmtLen)
            | None \<Rightarrow> rfc3164_tryFormats env p rest))"

text \<open>One space at the cursor, if there is one, is stepped over.\<close>

definition rfc3164_skipSpace :: "('t, 'loc) rfc3164_Parser \<Rightarrow> ('t, 'loc) rfc3164_Parser" where
  "rfc3164_skipSpace p =
     (if p3164_cursor p < p3164_l p \<and> p3164_buff p ! p3164_cursor p = CHR '' ''
      then p\<lparr> p3164_cursor := p3164_cursor p + 1 \<rparr> else p)"

text \<open>
  \<^verbatim>\<open>parseTimestamp\<close>. Its first statement reads \<^verbatim>\<open>p.buff[p.cursor]\<close> with no bound check:
  with the cursor at the end of the buffer the function panics. The comparison is the
  source's, \<^verbatim>\<open>c > '0' && c < '9'\<close>, on byte values.
\<close>

definition rfc3164_parseTimestamp ::
  "('t, 'loc) env \<Rightarrow> ('t, 'loc) rfc3164_Parser
     \<Rightarrow> (('t \<times> error option) \<times> ('t, 'loc) rfc3164_Parser) outcome" where
  "rfc3164_parseTimestamp env p =
     (if length (p3164_buff p) \<le> p3164_cursor p then Panic
      else
        (let c = p3164_buff p ! p3164_cursor p;
             tsFmts = (if (48::nat) < of_char c \<and> of_char c < (57::nat)
                       then [time_RFC3339, time_Stamp] else [time_Stamp, time_RFC3339]) in
         case rfc3164_tryFormats env p tsFmts of
           None \<Rightarrow>
             (let p1 = rfc3164_skipSpace (p\<lparr> p3164_cursor := length time_Stamp \<rparr>);
                  ts = time_Zero env in
              if ciscoASARegexp_MatchString (p3164_buff p) then
                Ret ((ts, Some ErrCiscoASAFormat), p1)
              else if strings_Contains (p3164_buff p) (''time='' @ [dquote]) then
                Ret ((ts, Some ErrSonicOSFormat), p1)
              else if strings_Contains (p3164_buff p) ''eventtime='' then
                Ret ((ts, Some ErrFortiOSFormat), p1)
              else if rfc3164_checkCiscoASA_RFC5424 (p3164_buff p) then
                Ret ((ts, Some ErrCiscoASARFC5424), p1)
              else Ret ((ts, Some (ErrorfOf ErrTimestampUnknownFormat (p3164_buff p))), p1))
         | Some (ts, tsFmtLen) \<Rightarrow>
             Ret ((fixTimestampIfNeeded env ts, None),
                  rfc3164_skipSpace (p\<lparr> p3164_cursor := p3164_cursor p + tsFmtLen \<rparr>))))"

text \<open>
  \<^verbatim>\<open>parseHostname\<close>. A host name that ends in a colon is the GNU quirk: the cursor goes
  back to one before where it was (after a parsed timestamp it is at least 15, so the
  subtraction stays in range) and the machine's own name is returned.
\<close>

definition rfc3164_parseHostname ::
  "('t, 'loc) env \<Rightarrow> ('t, 'loc) rfc3164_Parser
     \<Rightarrow> (error + string) \<times> ('t, 'loc) rfc3164_Parser" where
  "rfc3164_parseHostname env p =
     (let oldcursor = p3164_cursor p;
          (r, c) = ParseHostname env (p3164_buff p) (p3164_cursor p) (p3164_l p);
          p1 = p\<lparr> p3164_cursor := c \<rparr> in
      case r of
        Inr hostname \<Rightarrow>
          if hostname \<noteq> [] \<and> last hostname = CHR '':'' then
            (case os_Hostname env of
               Some myhostname \<Rightarrow> (Inr myhostname, p1\<lparr> p3164_cursor := oldcursor - 1 \<rparr>)
             | None \<Rightarrow> (Inr '''', p1\<lparr> p3164_cursor := oldcursor - 1 \<rparr>))
          else (Inr hostname, p1)
      | Inl e \<Rightarrow> (Inl e, p1))"

definition rfc3164_parseHeader ::
  "('t, 'loc) env \<Rightarrow> ('t, 'loc) rfc3164_Parser
     \<Rightarrow> (('t rfc3164_header \<times> error option) \<times> ('t, 'loc) rfc3164_Parser) outcome" where
  "rfc3164_parseHeader env p =
     (let hdr = \<lparr> hdr3164_timestamp = time_Zero env, hdr3164_hostname = '''' \<rparr> in
      case rfc3164_parseTimestamp env p of
        Panic \<Rightarrow> Panic
      | Ret ((ts, Some err), p1) \<Rightarrow> Ret ((hdr, Some err), p1)
      | Ret ((ts, None), p1) \<Rightarrow>
          (case rfc3164_parseHostname env p1 of
             (Inl err, p2) \<Rightarrow> Ret ((hdr, Some err), p2)
           | (Inr hostname, p2) \<Rightarrow>
               Ret ((\<lparr> hdr3164_timestamp = ts, hdr3164_hostname = hostname \<rparr>, None), p2)))"

text \<open>
  The loop of \<^verbatim>\<open>parseTag\<close>, from the cursor \<open>cur\<close>: \<open>tag\<close> and \<open>found\<close> are the loop's
  variables. The result is the tag with the cursor after the loop; at the end of the
  buffer the cursor goes back to \<open>from\<close> and the tag is empty. Reading
  \<^verbatim>\<open>p.buff[p.cursor]\<close> with the cursor beyond the end panics.
\<close>

function rfc3164_parseTag_loop ::
  "string \<Rightarrow> nat \<Rightarrow> nat \<Rightarrow> nat \<Rightarrow> string \<Rightarrow> bool \<Rightarrow> (string \<times> nat \<times> bool) outcome" where
  "rfc3164_parseTag_loop buff l from cur tag found =
     (if cur = l then Ret ('''', from, True)
      else if length buff \<le> cur then Panic
      else
        (let b = buff ! cur;
             bracketOpen = (b = CHR ''['');
             endOfTag = (b = CHR '':'' \<or> b = CHR '' '');
             tag1 = (if bracketOpen then take (cur - from) (drop from buff) else tag);
             found1 = (bracketOpen \<or> found) in
         if endOfTag then
           Ret (if found1 then tag1 else take (cur - from) (drop from buff), cur + 1, False)
         else rfc3164_parseTag_loop buff l from (cur + 1) tag1 found1))"
  by pat_completeness auto
termination
  by (relation "measure (\<lambda>(buff, l, from, cur, tag, found). length buff - cur)") auto

text \<open>
  \<^verbatim>\<open>parseTag\<close>: the third component of the loop's result says that the function returned
  from inside the loop (no tag found), where the space after the tag is not looked for.
\<close>

definition rfc3164_parseTag ::
  "('t, 'loc) rfc3164_Parser \<Rightarrow> (string \<times> ('t, 'loc) rfc3164_Parser) outcome" where
  "rfc3164_parseTag p =
     (case rfc3164_parseTag_loop (p3164_buff p) (p3164_l p) (p3164_cursor p) (p3164_cursor p)
             '''' False of
        Panic \<Rightarrow> Panic
      | Ret (tag, cur, returned) \<Rightarrow>
          if returned then Ret (tag, p\<lparr> p3164_cursor := cur \<rparr>)
          else Ret (tag, rfc3164_skipSpace (p\<lparr> p3164_cursor := cur \<rparr>)))"

definition rfc3164_parsemessage ::
  "('t, 'loc) rfc3164_Parser
     \<Rightarrow> ((rfc3164message \<times> error option) \<times> ('t, 'loc) rfc3164_Parser) outcome" where
  "rfc3164_parsemessage p =
     (let msg = \<lparr> msg_tag = '''', msg_content = p3164_buff p \<rparr> in
      if \<not> p3164_skipTag p then
        (case rfc3164_parseTag p of
           Panic \<Rightarrow> Panic
         | Ret (tag, p1) \<Rightarrow>
             (let (err, p2) = rfc3164_movePastContent p1 in
              Ret ((msg\<lparr> msg_tag := tag \<rparr>, Some err), p2)))
      else (let (err, p2) = rfc3164_movePastContent p in Ret ((msg, Some err), p2)))"

text \<open>\<^verbatim>\<open>setDefaultFail\<close>, the closure of \<^verbatim>\<open>Parse\<close>.\<close>

definition setDefaultFail ::
  "nat \<Rightarrow> ('t, 'loc) rfc3164_Parser \<Rightarrow> ('t, 'loc) rfc3164_Parser" where
  "setDefaultFail tcursor p = p\<lparr> p3164_skipTag := True, p3164_cursor := tcursor \<rparr>"

text \<open>
  The end of \<^verbatim>\<open>Parse\<close>, from \<^verbatim>\<open>if !skipMessageParse\<close> on. An error of \<^verbatim>\<open>parsemessage\<close>
  other than \<^verbatim>\<open>ErrEOL\<close> (nil included) is returned as it is.
\<close>

definition rfc3164_Parse_finish ::
  "('t, 'loc) env \<Rightarrow> Priority \<Rightarrow> 't rfc3164_header \<Rightarrow> bool \<Rightarrow> ('t, 'loc) rfc3164_Parser
     \<Rightarrow> (error option \<times> ('t, 'loc) rfc3164_Parser) outcome" where
  "rfc3164_Parse_finish env pri hdr skipMessageParse p =
     (let fin = (\<lambda>q. q\<lparr> p3164_priority := pri, p3164_version := NO_VERSION env,
                        p3164_header := hdr \<rparr>) in
      if \<not> skipMessageParse then
        (case rfc3164_parsemessage p of
           Panic \<Rightarrow> Panic
         | Ret ((msg, err), p1) \<Rightarrow>
             if err \<noteq> Some ErrEOL then Ret (err, p1)
             else Ret (None, fin (p1\<lparr> p3164_message := msg \<rparr>)))
      else Ret (None, fin (p\<lparr> p3164_message :=
                               \<lparr> msg_tag = '''', msg_content = p3164_buff p \<rparr> \<rparr>)))"

text \<open>The dispatch of \<^verbatim>\<open>Parse\<close> on the outcome of a dialect's header parser.\<close>

definition rfc3164_Parse_dialect ::
  "('t, 'loc) env \<Rightarrow> Priority \<Rightarrow> nat \<Rightarrow> (error + 't rfc3164_header)
     \<Rightarrow> ('t, 'loc) rfc3164_Parser \<Rightarrow> (error option \<times> ('t, 'loc) rfc3164_Parser) outcome" where
  "rfc3164_Parse_dialect env pri tcursor r p =
     (case r of
        Inl err \<Rightarrow> Ret (Some err, setDefaultFail tcursor p)
      | Inr hdr \<Rightarrow> rfc3164_Parse_finish env pri hdr True p)"

text \<open>\<^verbatim>\<open>Parser.Parse\<close> of package rfc3164.\<close>

definition rfc3164_Parse ::
  "('t, 'loc) env \<Rightarrow> ('t, 'loc) rfc3164_Parser
     \<Rightarrow> (error option \<times> ('t, 'loc) rfc3164_Parser) outcome" where
  "rfc3164_Parse env p0 =
     (let tcursor0 = p3164_cursor p0;
          p1 = p0\<lparr> p3164_message := \<lparr> msg_tag = '''', msg_content = p3164_buff p0 \<rparr>,
                   p3164_header := (p3164_header p0)
                      \<lparr> hdr3164_timestamp := time_UTC env (time_Now env) \<rparr> \<rparr> in
      case ParsePriority env (p3164_buff p1) (p3164_cursor p1) (p3164_l p1) of
        (Inl err, c) \<Rightarrow>
          (let p2 = p1\<lparr> p3164_message := \<lparr> msg_tag = '''', msg_content = p3164_buff p1 \<rparr>,
                        p3164_priority :=
                          \<lparr> Priority_P = 13, Facility_Value = 1, Severity_Value = 5 \<rparr>,
                        p3164_cursor := tcursor0,
                        p3164_header := (p3164_header p1)
                          \<lparr> hdr3164_timestamp := time_UTC env (time_Now env) \<rparr> \<rparr>;
                (err1, p3) = rfc3164_movePastContent p2 in
           if err1 \<noteq> ErrEOL then Ret (Some err1, p3) else Ret (None, p3))
      | (Inr pri, c) \<Rightarrow>
          (let p2 = p1\<lparr> p3164_cursor := c \<rparr>;
               tcursor = p3164_cursor p2 in
           case rfc3164_parseHeader env p2 of
             Panic \<Rightarrow> Panic
           | Ret ((hdr, None), p3) \<Rightarrow>
               rfc3164_Parse_finish env pri hdr False (p3\<lparr> p3164_cursor := p3164_cursor p3 + 1 \<rparr>)
           | Ret ((hdr, Some err), p3) \<Rightarrow>
               if err = ErrSonicOSFormat then
                 rfc3164_Parse_dialect env pri tcursor (parseSonicWallHeader env p3) p3
               else if err = ErrFortiOSFormat then
                 rfc3164_Parse_dialect env pri tcursor (parseFortiOSHeader env p3) p3
               else if err = ErrCiscoASAFormat then
                 rfc3164_Parse_dialect env pri tcursor (parseCiscoASAHeader env p3) p3
               else if err = ErrCiscoASARFC5424 then
                 rfc3164_Parse_dialect env pri tcursor (parseCiscoASA_RFC5424 env p3) p3
               else Ret (Some err, setDefaultFail tcursor p3)))"

definition rfc3164_Dump :: "('t, 'loc) rfc3164_Parser \<Rightarrow> 't LogParts" where
  "rfc3164_Dump p =
     [''timestamp'' \<mapsto> VTime (hdr3164_timestamp (p3164_header p)),
      ''hostname'' \<mapsto> VString (hdr3164_hostname (p3164_header p)),
      ''tag'' \<mapsto> VString (msg_tag (p3164_message p)),
      ''content'' \<mapsto> VString (msg_content (p3164_message p)),
      ''priority'' \<mapsto> VInt (Priority_P (p3164_priority p)),
      ''facility'' \<mapsto> VInt (Facility_Value (p3164_priority p)),
      ''severity'' \<mapsto> VInt (Severity_Value (p3164_priority p))]"

section \<open>The RFC 5424 parser\<close>

record 't rfc5424_header =
  hdr5424_priority :: Priority
  hdr5424_version :: int
  hdr5424_timestamp :: 't
  hdr5424_hostname :: string
  hdr5424_appName :: string
  hdr5424_procId :: string
  hdr5424_msgId :: string

record 't rfc5424_Parser =
  p5424_buff :: string
  p5424_cursor :: nat
  p5424_l :: nat
  p5424_header :: "'t rfc5424_header"
  p5424_structuredData :: string
  p5424_message :: string
  p5424_isUnixTimestamp :: bool

record partialTime =
  pt_hour :: int
  pt_minute :: int
  pt_seconds :: int
  pt_secFrac :: float64

record fullDate =
  fd_year :: int
  fd_month :: int
  fd_day :: int

definition rfc5424_zero_header :: "('t, 'loc) env \<Rightarrow> 't rfc5424_header" where
  "rfc5424_zero_header env =
     \<lparr> hdr5424_priority = \<lparr> Priority_P = 0, Facility_Value = 0, Severity_Value = 0 \<rparr>,
       hdr5424_version = 0, hdr5424_timestamp = time_Zero env, hdr5424_hostname = '''',
       hdr5424_appName = '''', hdr5424_procId = '''', hdr5424_msgId = '''' \<rparr>"

definition rfc5424_NewParser :: "('t, 'loc) env \<Rightarrow> string \<Rightarrow> 't rfc5424_Parser" where
  "rfc5424_NewParser env buff =
     \<lparr> p5424_buff = buff, p5424_cursor = 0, p5424_l = length buff,
       p5424_header = rfc5424_zero_header env, p5424_structuredData = '''',
       p5424_message = '''', p5424_isUnixTimestamp = False \<rparr>"

text \<open>The bytes \<^verbatim>\<open>buff[from:l]\<close>.\<close>

definition upto_l :: "string \<Rightarrow> nat \<Rightarrow> nat \<Rightarrow> string" where
  "upto_l buff from l = take (l - from) (drop from buff)"

text \<open>The loop of \<^verbatim>\<open>isUnixTimestamp\<close> over \<^verbatim>\<open>buff[startPos:l]\<close>.\<close>

fun isUnixTimestamp_loop :: "string \<Rightarrow> nat \<Rightarrow> bool" where
  "isUnixTimestamp_loop [] digitCount = (10 \<le> digitCount)"
| "isUnixTimestamp_loop (b # bs) digitCount =
     (if b = CHR ''.'' then 10 \<le> digitCount
      else if IsDigit b then isUnixTimestamp_loop bs (digitCount + 1)
      else 10 \<le> digitCount)"

definition isUnixTimestamp :: "string \<Rightarrow> nat \<Rightarrow> nat \<Rightarrow> bool" where
  "isUnixTimestamp buff cursor l = isUnixTimestamp_loop (upto_l buff cursor l) 0"

text \<open>
  \<^verbatim>\<open>parseUnixTimestamp\<close>. The first loop looks for the first dot anywhere from the cursor
  to the end of the buffer; without one the integer part is all the rest of the buffer.
\<close>

definition parseUnixTimestamp ::
  "('t, 'loc) env \<Rightarrow> string \<Rightarrow> nat \<Rightarrow> nat \<Rightarrow> (error + 't) \<times> nat" where
  "parseUnixTimestamp env buff cursor l =
     (let rest = upto_l buff cursor l;
          pre = takeWhile (\<lambda>c. c \<noteq> CHR ''.'') rest;
          noDot = (length pre = length rest);
          intPartStr = (if noDot then drop cursor buff else pre);
          dotPos = cursor + length pre;
          fracPartStr = (if noDot then '''' else takeWhile IsDigit (upto_l buff (dotPos + 1) l));
          cursor1 = (if noDot then l else dotPos + 1 + length fracPartStr) in
      case strconv_ParseInt intPartStr of
        None \<Rightarrow> (Inl (ErrLibrary ''strconv.ParseInt''), cursor1)
      | Some sec \<Rightarrow>
          if fracPartStr \<noteq> '''' then
            (if strconv_ParseFloat_ok env (''0.'' @ fracPartStr)
             then (Inr (time_Unix env sec (float_nanos env (FloatOf (''0.'' @ fracPartStr)))),
                   cursor1)
             else (Inl (ErrLibrary ''strconv.ParseFloat''), cursor1))
          else (Inr (time_Unix env sec 0), cursor1))"

definition rfc5424_parseYear :: "string \<Rightarrow> nat \<Rightarrow> nat \<Rightarrow> (error + int) \<times> nat" where
  "rfc5424_parseYear buff cursor l =
     (if l < cursor + 4 then (Inl ErrEOL, cursor)
      else (case strconv_ParseInt (take 4 (drop cursor buff)) of
              None \<Rightarrow> if rfc5424_checkCiscoASA_RFC5424 buff
                      then (Inl rfc5424_ErrCiscoASARFC5424, cursor + 4)
                      else (Inl ErrYearInvalid, cursor + 4)
            | Some year \<Rightarrow> (Inr year, cursor + 4)))"

definition parseMonth :: "('t, 'loc) env \<Rightarrow> string \<Rightarrow> nat \<Rightarrow> nat \<Rightarrow> (error + int) \<times> nat" where
  "parseMonth env buff cursor l = Parse2Digits env buff cursor l 1 12 ErrMonthInvalid"

definition parseDay :: "('t, 'loc) env \<Rightarrow> string \<Rightarrow> nat \<Rightarrow> nat \<Rightarrow> (error + int) \<times> nat" where
  "parseDay env buff cursor l = Parse2Digits env buff cursor l 1 31 ErrDayInvalid"

definition parseHour :: "('t, 'loc) env \<Rightarrow> string \<Rightarrow> nat \<Rightarrow> nat \<Rightarrow> (error + int) \<times> nat" where
  "parseHour env buff cursor l = Parse2Digits env buff cursor l 0 23 ErrHourInvalid"

definition parseMinute :: "('t, 'loc) env \<Rightarrow> string \<Rightarrow> nat \<Rightarrow> nat \<Rightarrow> (error + int) \<times> nat" where
  "parseMinute env buff cursor l = Parse2Digits env buff cursor l 0 59 ErrMinuteInvalid"

definition parseSecond :: "('t, 'loc) env \<Rightarrow> string \<Rightarrow> nat \<Rightarrow> nat \<Rightarrow> (error + int) \<times> nat" where
  "parseSecond env buff cursor l = Parse2Digits env buff cursor l 0 59 ErrSecondInvalid"

definition parseFullDate ::
  "('t, 'loc) env \<Rightarrow> string \<Rightarrow> nat \<Rightarrow> nat \<Rightarrow> (error + fullDate) \<times> nat" where
  "parseFullDate env buff cursor l =
     (case rfc5424_parseYear buff cursor l of
        (Inl err, c1) \<Rightarrow> (Inl err, c1)
      | (Inr year, c1) \<Rightarrow>
          if l \<le> c1 \<or> buff ! c1 \<noteq> CHR ''-''
          then (Inl (ErrorfOf ErrTimestampUnknownFormat buff), c1)
          else (case parseMonth env buff (c1 + 1) l of
                  (Inl err, c2) \<Rightarrow> (Inl err, c2)
                | (Inr month, c2) \<Rightarrow>
                    if l \<le> c2 \<or> buff ! c2 \<noteq> CHR ''-''
                    then (Inl (ErrorfOf ErrTimestampUnknownFormat buff), c2)
                    else (case parseDay env buff (c2 + 1) l of
                            (Inl err, c3) \<Rightarrow> (Inl err, c3)
                          | (Inr day, c3) \<Rightarrow>
                              (Inr \<lparr> fd_year = year, fd_month = month, fd_day = day \<rparr>, c3))))"

definition getHourMinute ::
  "('t, 'loc) env \<Rightarrow> string \<Rightarrow> nat \<Rightarrow> nat \<Rightarrow> (error + int \<times> int) \<times> nat" where
  "getHourMinute env buff cursor l =
     (case parseHour env buff cursor l of
        (Inl err, c1) \<Rightarrow> (Inl err, c1)
      | (Inr hour, c1) \<Rightarrow>
          if l \<le> c1 \<or> buff ! c1 \<noteq> CHR '':''
          then (Inl (ErrorfOf ErrInvalidTimeFormat buff), c1)
          else (case parseMinute env buff (c1 + 1) l of
                  (Inl err, c2) \<Rightarrow> (Inl err, c2)
                | (Inr minute, c2) \<Rightarrow> (Inr (hour, minute), c2)))"

text \<open>
  \<^verbatim>\<open>parseSecFrac\<close>: at most six digits from the cursor; the cursor moves only once the
  digits are there.
\<close>

definition parseSecFrac ::
  "('t, 'loc) env \<Rightarrow> string \<Rightarrow> nat \<Rightarrow> nat \<Rightarrow> (error + float64) \<times> nat" where
  "parseSecFrac env buff cursor l =
     (let sub = takeWhile IsDigit (take 6 (upto_l buff cursor l));
          to = cursor + length sub in
      if sub = '''' then (Inl ErrSecFracInvalid, cursor)
      else if strconv_ParseFloat_ok env (''0.'' @ sub) then (Inr (FloatOf (''0.'' @ sub)), to)
      else (Inl ErrSecFracInvalid, to))"

text \<open>\<^verbatim>\<open>parsePartialTime\<close>: an error of \<^verbatim>\<open>parseSecFrac\<close> is dropped.\<close>

definition parsePartialTime ::
  "('t, 'loc) env \<Rightarrow> string \<Rightarrow> nat \<Rightarrow> nat \<Rightarrow> (error + partialTime) \<times> nat" where
  "parsePartialTime env buff cursor l =
     (case getHourMinute env buff cursor l of
        (Inl err, c1) \<Rightarrow> (Inl err, c1)
      | (Inr (hour, minute), c1) \<Rightarrow>
          if l \<le> c1 \<or> buff ! c1 \<noteq> CHR '':''
          then (Inl (ErrorfOf ErrInvalidTimeFormat buff), c1)
          else (case parseSecond env buff (c1 + 1) l of
                  (Inl err, c2) \<Rightarrow> (Inl err, c2)
                | (Inr seconds, c2) \<Rightarrow>
                    (let pt = \<lparr> pt_hour = hour, pt_minute = minute, pt_seconds = seconds,
                                pt_secFrac = FloatZero \<rparr> in
                     if l \<le> c2 \<or> buff ! c2 \<noteq> CHR ''.'' then (Inr pt, c2)
                     else (case parseSecFrac env buff (c2 + 1) l of
                             (Inl err, c3) \<Rightarrow> (Inr pt, c3)
                           | (Inr secFrac, c3) \<Rightarrow> (Inr (pt\<lparr> pt_secFrac := secFrac \<rparr>), c3)))))"

text \<open>\<^verbatim>\<open>fmt.Sprintf("%02d", n)\<close>.\<close>

definition fmt_02d :: "int \<Rightarrow> string" where
  "fmt_02d n = (if n < 0 then ''-'' @ itoa (nat (- n))
                else if n < 10 then ''0'' @ itoa (nat n) else itoa (nat n))"

definition parseNumericalTimeOffset ::
  "('t, 'loc) env \<Rightarrow> string \<Rightarrow> nat \<Rightarrow> nat \<Rightarrow> (error + 'loc) \<times> nat" where
  "parseNumericalTimeOffset env buff cursor l =
     (let sign = buff ! cursor in
      if sign \<noteq> CHR ''+'' \<and> sign \<noteq> CHR ''-'' then (Inl ErrTimeZoneInvalid, cursor)
      else (case getHourMinute env buff (cursor + 1) l of
              (Inl err, c1) \<Rightarrow> (Inl err, c1)
            | (Inr (hour, minute), c1) \<Rightarrow>
                (case time_Parse env ''-07:00'' ([sign] @ fmt_02d hour @ '':'' @ fmt_02d minute) of
                   None \<Rightarrow> (Inl (ErrLibrary ''time.Parse''), c1)
                 | Some tmpTs \<Rightarrow> (Inr (time_Location env tmpTs), c1))))"

text \<open>
  \<^verbatim>\<open>parseTimeOffset\<close>: \<^verbatim>\<open>parseNumericalTimeOffset\<close> reads \<^verbatim>\<open>buff[*cursor]\<close> unguarded, and
  is called only with the cursor inside the buffer.
\<close>

definition parseTimeOffset ::
  "('t, 'loc) env \<Rightarrow> string \<Rightarrow> nat \<Rightarrow> nat \<Rightarrow> (error + 'loc) \<times> nat" where
  "parseTimeOffset env buff cursor l =
     (if l \<le> cursor \<or> buff ! cursor = CHR ''Z'' then (Inr (time_UTC_loc env), cursor + 1)
      else parseNumericalTimeOffset env buff cursor l)"

definition parseFullTime ::
  "('t, 'loc) env \<Rightarrow> string \<Rightarrow> nat \<Rightarrow> nat \<Rightarrow> (error + partialTime \<times> 'loc) \<times> nat" where
  "parseFullTime env buff cursor l =
     (case parsePartialTime env buff cursor l of
        (Inl err, c1) \<Rightarrow> (Inl err, c1)
      | (Inr pt, c1) \<Rightarrow>
          (case parseTimeOffset env buff c1 l of
             (Inl err, c2) \<Rightarrow> (Inl err, c2)
           | (Inr loc, c2) \<Rightarrow> (Inr (pt, loc), c2)))"

definition toNSec :: "('t, 'loc) env \<Rightarrow> float64 \<Rightarrow> error + int" where
  "toNSec env sec =
     (case strconv_ParseInt (drop 2 (float_frac_text env sec)) of
        None \<Rightarrow> Inl (ErrLibrary ''strconv.Atoi'')
      | Some fracInt \<Rightarrow> Inr fracInt)"

text \<open>
  \<^verbatim>\<open>parseTimestamp\<close> of package rfc5424. When \<^verbatim>\<open>parseFullDate\<close> reports the Cisco ASA
  sentinel and the pattern then has no match, the source falls through to the \<^verbatim>\<open>'T'\<close>
  check with the zero date.
\<close>

definition rfc5424_parseTimestamp_rest ::
  "('t, 'loc) env \<Rightarrow> 't \<Rightarrow> fullDate \<Rightarrow> 't rfc5424_Parser
     \<Rightarrow> ('t \<times> error option) \<times> 't rfc5424_Parser" where
  "rfc5424_parseTimestamp_rest env ts fd p =
     (let buff = p5424_buff p; l = p5424_l p in
      if l \<le> p5424_cursor p \<or> buff ! p5424_cursor p \<noteq> CHR ''T''
      then ((ts, Some (ErrorfOf ErrInvalidTimeFormat buff)), p)
      else (case parseFullTime env buff (p5424_cursor p + 1) l of
              (Inl err, c) \<Rightarrow>
                ((ts, Some (ErrorfOf ErrTimestampUnknownFormat buff)), p\<lparr> p5424_cursor := c \<rparr>)
            | (Inr (pt, loc), c) \<Rightarrow>
                (case toNSec env (pt_secFrac pt) of
                   Inl err \<Rightarrow> ((ts, Some err), p\<lparr> p5424_cursor := c \<rparr>)
                 | Inr nSec \<Rightarrow>
                     ((time_Date env (fd_year fd) (fd_month fd) (fd_day fd) (pt_hour pt)
                         (pt_minute pt) (pt_seconds pt) nSec loc, None),
                      p\<lparr> p5424_cursor := c \<rparr>))))"

definition rfc5424_parseTimestamp ::
  "('t, 'loc) env \<Rightarrow> 't rfc5424_Parser \<Rightarrow> ('t \<times> error option) \<times> 't rfc5424_Parser" where
  "rfc5424_parseTimestamp env p =
     (let ts = time_Now env; buff = p5424_buff p; l = p5424_l p in
      if l \<le> p5424_cursor p then ((ts, Some (ErrorfOf ErrInvalidTimeFormat buff)), p)
      else if buff ! p5424_cursor p = CHR ''-''
      then ((ts, None), p\<lparr> p5424_cursor := p5424_cursor p + 1 \<rparr>)
      else if isUnixTimestamp buff (p5424_cursor p) l then
        (case parseUnixTimestamp env buff (p5424_cursor p) l of
           (Inl err, c) \<Rightarrow>
             ((ts, Some err), p\<lparr> p5424_isUnixTimestamp := True, p5424_cursor := c \<rparr>)
         | (Inr unixTs, c) \<Rightarrow>
             ((unixTs, None), p\<lparr> p5424_isUnixTimestamp := True, p5424_cursor := c \<rparr>))
      else
        (case parseFullDate env buff (p5424_cursor p) l of
           (Inl err, c) \<Rightarrow>
             if err = rfc5424_ErrCiscoASARFC5424 then
               (case rfc5424_ciscoASATimestampRegexp buff of
                  Some timestampStr \<Rightarrow>
                    (case time_Parse env time_RFC3339 timestampStr of
                       None \<Rightarrow>
                         ((ts, Some (Errorf ''failed to parse cisco ASA RFC5424 timestamp'' '''')),
                          p\<lparr> p5424_cursor := c \<rparr>)
                     | Some parsedTime \<Rightarrow>
                         ((parsedTime, Some rfc5424_ErrCiscoASARFC5424), p\<lparr> p5424_cursor := c \<rparr>))
                | None \<Rightarrow>
                    rfc5424_parseTimestamp_rest env ts
                      \<lparr> fd_year = 0, fd_month = 0, fd_day = 0 \<rparr> (p\<lparr> p5424_cursor := c \<rparr>))
             else ((ts, Some err), p\<lparr> p5424_cursor := c \<rparr>)
         | (Inr fd, c) \<Rightarrow> rfc5424_parseTimestamp_rest env ts fd (p\<lparr> p5424_cursor := c \<rparr>)))"

text \<open>The loop of \<^verbatim>\<open>parseUpToLen\<close>: where it stops and whether it found the space
  (\<open>mx\<close> is the source's \<^verbatim>\<open>max\<close>).\<close>

function parseUpToLen_loop :: "string \<Rightarrow> nat \<Rightarrow> nat \<Rightarrow> nat \<Rightarrow> nat \<times> bool" where
  "parseUpToLen_loop buff l mx to =
     (if to \<le> mx \<and> to < l then
        (if buff ! to = CHR '' '' then (to, True) else parseUpToLen_loop buff l mx (to + 1))
      else (to, False))"
  by pat_completeness auto
termination
  by (relation "measure (\<lambda>(buff, l, mx, to). l - to)") auto

definition parseUpToLen ::
  "string \<Rightarrow> nat \<Rightarrow> nat \<Rightarrow> nat \<Rightarrow> error \<Rightarrow> (error + string) \<times> nat" where
  "parseUpToLen buff cursor l maxLen e =
     (let mx = cursor + maxLen;
          (to, found) = parseUpToLen_loop buff l mx cursor in
      if found then (Inr (take (to - cursor) (drop cursor buff)), to)
      else (Inl e, if mx < to then mx else to))"

text \<open>
  The loop of \<^verbatim>\<open>parseStructuredData\<close>: the index after the first closing bracket that
  ends the buffer or is followed by a space.
\<close>

function parseStructuredData_loop :: "string \<Rightarrow> nat \<Rightarrow> nat \<Rightarrow> nat option" where
  "parseStructuredData_loop buff l to =
     (if to < l then
        (if buff ! to = CHR '']'' \<and> (to + 1 = l \<or> buff ! (to + 1) = CHR '' '')
         then Some (to + 1) else parseStructuredData_loop buff l (to + 1))
      else None)"
  by pat_completeness auto
termination
  by (relation "measure (\<lambda>(buff, l, to). l - to)") auto

definition parseStructuredData :: "string \<Rightarrow> nat \<Rightarrow> nat \<Rightarrow> (error + string) \<times> nat" where
  "parseStructuredData buff cursor l =
     (if l \<le> cursor then (Inr ''-'', cursor)
      else if buff ! cursor = CHR ''-'' then (Inr ''-'', cursor + 1)
      else if buff ! cursor \<noteq> CHR ''['' then (Inl (ErrorfOf ErrNoStructuredData buff), cursor)
      else (case parseStructuredData_loop buff l cursor of
              Some to \<Rightarrow> (Inr (take (to - cursor) (drop cursor buff)), to)
            | None \<Rightarrow> (Inl (ErrorfOf ErrNoStructuredData buff), cursor)))"

text \<open>
  \<^verbatim>\<open>parseHeader\<close> of package rfc5424: the header as far as it was filled, with the
  error. The errors of \<^verbatim>\<open>parseProcId\<close> and \<^verbatim>\<open>parseMsgId\<close> are dropped.
\<close>

definition rfc5424_parseHeader ::
  "('t, 'loc) env \<Rightarrow> 't rfc5424_Parser
     \<Rightarrow> ('t rfc5424_header \<times> error option) \<times> 't rfc5424_Parser" where
  "rfc5424_parseHeader env p =
     (let hdr = rfc5424_zero_header env; buff = p5424_buff p; l = p5424_l p in
      case ParsePriority env buff (p5424_cursor p) l of
        (Inl err, c) \<Rightarrow> ((hdr, Some err), p\<lparr> p5424_cursor := c \<rparr>)
      | (Inr pri, c) \<Rightarrow>
     (let hdr = hdr\<lparr> hdr5424_priority := pri \<rparr> in
      case ParseVersion env buff c l of
        (Inl err, c) \<Rightarrow> ((hdr, Some err), p\<lparr> p5424_cursor := c \<rparr>)
      | (Inr ver, c) \<Rightarrow>
     (let hdr = hdr\<lparr> hdr5424_version := ver \<rparr> in
      case rfc5424_parseTimestamp env (p\<lparr> p5424_cursor := c + 1 \<rparr>) of
        ((ts, Some err), p1) \<Rightarrow>
          if err = rfc5424_ErrCiscoASARFC5424
          then ((hdr\<lparr> hdr5424_timestamp := ts \<rparr>, Some rfc5424_ErrCiscoASARFC5424), p1)
          else ((hdr, Some err), p1)
      | ((ts, None), p1) \<Rightarrow>
     (let hdr = hdr\<lparr> hdr5424_timestamp := ts \<rparr> in
      case ParseHostname env buff (p5424_cursor p1 + 1) l of
        (Inl err, c) \<Rightarrow> ((hdr, Some err), p1\<lparr> p5424_cursor := c \<rparr>)
      | (Inr host, c) \<Rightarrow>
     (let hdr = hdr\<lparr> hdr5424_hostname := host \<rparr> in
      case parseUpToLen buff (c + 1) l 48 ErrInvalidAppName of
        (Inl err, c) \<Rightarrow> ((hdr, Some err), p1\<lparr> p5424_cursor := c \<rparr>)
      | (Inr appName, c) \<Rightarrow>
     (let hdr = hdr\<lparr> hdr5424_appName := appName \<rparr> in
      case parseUpToLen buff (c + 1) l 128 ErrInvalidProcId of
        (Inl err, c) \<Rightarrow> ((hdr, None), p1\<lparr> p5424_cursor := c \<rparr>)
      | (Inr procId, c) \<Rightarrow>
     (let hdr = hdr\<lparr> hdr5424_procId := procId \<rparr> in
      case parseUpToLen buff (c + 1) l 32 ErrInvalidMsgId of
        (Inl err, c) \<Rightarrow> ((hdr, None), p1\<lparr> p5424_cursor := c \<rparr>)
      | (Inr msgId, c) \<Rightarrow>
          ((hdr\<lparr> hdr5424_msgId := msgId \<rparr>, None), p1\<lparr> p5424_cursor := c + 1 \<rparr>))))))))"

text \<open>\<^verbatim>\<open>Parser.Parse\<close> of package rfc5424: the error it returns and the parser it leaves.\<close>

definition rfc5424_Parse ::
  "('t, 'loc) env \<Rightarrow> 't rfc5424_Parser \<Rightarrow> error option \<times> 't rfc5424_Parser" where
  "rfc5424_Parse env p0 =
     (let p = p0\<lparr> p5424_message := p5424_buff p0,
                  p5424_header := (p5424_header p0)
                     \<lparr> hdr5424_timestamp := time_Round_Second env (time_Now env) \<rparr> \<rparr> in
      case rfc5424_parseHeader env p of
        ((hdr, Some err), p1) \<Rightarrow>
          if err = rfc5424_ErrCiscoASARFC5424
          then (None, p1\<lparr> p5424_header := hdr\<lparr> hdr5424_version := 1 \<rparr>,
                         p5424_structuredData := ''-'' \<rparr>)
          else (Some err, p1)
      | ((hdr, None), p1) \<Rightarrow>
          (let p2 = p1\<lparr> p5424_header := hdr \<rparr> in
           if p5424_isUnixTimestamp p2 then (None, p2\<lparr> p5424_structuredData := ''-'' \<rparr>)
           else (case parseStructuredData (p5424_buff p2) (p5424_cursor p2) (p5424_l p2) of
                   (Inl err, c) \<Rightarrow> (Some err, p2\<lparr> p5424_cursor := c \<rparr>)
                 | (Inr sd, c) \<Rightarrow>
                     (None, p2\<lparr> p5424_structuredData := sd, p5424_cursor := c + 1 \<rparr>))))"

definition rfc5424_Dump :: "'t rfc5424_Parser \<Rightarrow> 't LogParts" where
  "rfc5424_Dump p =
     [''priority'' \<mapsto> VInt (Priority_P (hdr5424_priority (p5424_header p))),
      ''facility'' \<mapsto> VInt (Facility_Value (hdr5424_priority (p5424_header p))),
      ''severity'' \<mapsto> VInt (Severity_Value (hdr5424_priority (p5424_header p))),
      ''version'' \<mapsto> VInt (hdr5424_version (p5424_header p)),
      ''timestamp'' \<mapsto> VTime (hdr5424_timestamp (p5424_header p)),
      ''hostname'' \<mapsto> VString (hdr5424_hostname (p5424_header p)),
      ''app_name'' \<mapsto> VString (hdr5424_appName (p5424_header p)),
      ''proc_id'' \<mapsto> VString (hdr5424_procId (p5424_header p)),
      ''msg_id'' \<mapsto> VString (hdr5424_msgId (p5424_header p)),
      ''structured_data'' \<mapsto> VString (p5424_structuredData p),
      ''message'' \<mapsto> VString (p5424_message p)]"

section \<open>The receiver: record assembly (server.go)\<close>

text \<open>
  The identity of the configured format: the receiver compares \<^verbatim>\<open>s.format\<close> with its
  package-level values \<^verbatim>\<open>RFC3164\<close> and \<^verbatim>\<open>Automatic\<close>. \<open>OtherFormat\<close> is any other
  implementation of the \<^verbatim>\<open>format.Format\<close> interface.
\<close>

datatype format_id = RFC3164 | RFC5424 | RFC6587 | Automatic | OtherFormat

text \<open>
  A format as the receiver uses it: \<open>GetParser_run line\<close> is the outcome of
  \<^verbatim>\<open>parser := s.format.GetParser(line); err := parser.Parse(); parser.Dump()\<close>,
  the error of \<^verbatim>\<open>Parse\<close> and the map of \<^verbatim>\<open>Dump\<close>, or the panic of \<^verbatim>\<open>Parse\<close>.
\<close>

record ('e, 't) format =
  format_ident :: format_id
  GetParser_run :: "string \<Rightarrow> ('e option \<times> 't LogParts) outcome"

text \<open>
  \<^verbatim>\<open>Server.parser(line, client, tlsPeer)\<close>. The result is the triple handed to
  \<^verbatim>\<open>s.handler.Handle\<close>; a panic of the parser is not recovered. The local variable \<^verbatim>\<open>timestamp\<close> of the source is assigned
  when it equals \<^verbatim>\<open>""\<close> and never read again; it is the second component of the
  \<open>let\<close> below.
\<close>

definition Server_parser ::
  "('t, 'loc) env \<Rightarrow> ('e, 't) format \<Rightarrow> string \<Rightarrow> string \<Rightarrow> string
     \<Rightarrow> ('t LogParts \<times> int \<times> 'e option) outcome" where
  "Server_parser lib fmt line client tlsPeer =
     (case GetParser_run fmt line of
        Panic \<Rightarrow> Panic
      | Ret (err, logParts0) \<Rightarrow>
     (let timestamp = map_read logParts0 ''timestamp'';
          ok = (logParts0 ''timestamp'' \<noteq> None);
          logParts1 = (if \<not> ok then logParts0(''timestamp'' \<mapsto> VTime (time_UTC lib (time_Now lib)))
                       else logParts0);
          timestamp' = (if timestamp = VString '''' then VTime (time_UTC lib (time_Now lib))
                        else timestamp);
          logParts2 = logParts1(''client'' \<mapsto> VString client);
          logParts3 =
            (if map_read logParts2 ''hostname'' = VString ''''
                \<and> (format_ident fmt = RFC3164 \<or> format_ident fmt = Automatic)
             then (let i = strings_Index client '':'' in
                   if 1 < i then logParts2(''hostname'' \<mapsto> VString (take (nat i) client))
                   else logParts2(''hostname'' \<mapsto> VString client))
             else logParts2);
          logParts4 = logParts3(''tls_peer'' \<mapsto> VString tlsPeer)
      in Ret (logParts4, int (length line), err)))"


text \<open>
  Modelled from the spec: the values \<^verbatim>\<open>RFC3164\<close> and \<^verbatim>\<open>RFC5424\<close> of package \<^verbatim>\<open>format\<close>
  (its files are not among the sources), which hand the line to the parser of that name.
\<close>

definition format_RFC3164 :: "('t, 'loc) env \<Rightarrow> (error, 't) format" where
  "format_RFC3164 env =
     \<lparr> format_ident = RFC3164,
       GetParser_run = (\<lambda>line. case rfc3164_Parse env (rfc3164_NewParser env line) of
                                   Panic \<Rightarrow> Panic
                                 | Ret (err, p) \<Rightarrow> Ret (err, rfc3164_Dump p)) \<rparr>"

definition format_RFC5424 :: "('t, 'loc) env \<Rightarrow> (error, 't) format" where
  "format_RFC5424 env =
     \<lparr> format_ident = RFC5424,
       GetParser_run = (\<lambda>line. case rfc5424_Parse env (rfc5424_NewParser env line) of
                                   (err, p) \<Rightarrow> Ret (err, rfc5424_Dump p)) \<rparr>"

text \<open>
  A format of the application's own (the interface \<^verbatim>\<open>format.Format\<close> is exported) whose
  parser reports the given map from \<^verbatim>\<open>Dump\<close>.
\<close>

definition format_custom :: "'t LogParts \<Rightarrow> (error, 't) format" where
  "format_custom parts = \<lparr> format_ident = OtherFormat, GetParser_run = (\<lambda>line. Ret (None, parts)) \<rparr>"

section \<open>The primitive scanners, from their description\<close>

text \<open>
  Modelled from the spec: \<^verbatim>\<open>syslogparser.ParsePriority\<close> (package
  \<^verbatim>\<open>internal/syslogparser\<close> is not among the sources). It requires \<^verbatim>\<open><\<close>, then one to
  three decimal digits, then \<^verbatim>\<open>>\<close>, and fails when they are absent, malformed or out of
  the range 0 to 191; on success the cursor is after the \<^verbatim>\<open>>\<close>, the facility is the
  priority divided by 8 and the severity the remainder.
\<close>

definition ParsePriority_spec :: "string \<Rightarrow> nat \<Rightarrow> nat \<Rightarrow> (error + Priority) \<times> nat" where
  "ParsePriority_spec buff cursor l =
     (case upto_l buff cursor l of
        [] \<Rightarrow> (Inl (ErrScanner ''priority''), cursor)
      | c # r \<Rightarrow>
          (let ds = takeWhile IsDigit r in
           if c = CHR ''<'' \<and> 1 \<le> length ds \<and> length ds \<le> 3
                \<and> prefix ''>'' (dropWhile IsDigit r) \<and> dec_val ds \<le> 191
           then (Inr \<lparr> Priority_P = int (dec_val ds), Facility_Value = int (dec_val ds div 8),
                       Severity_Value = int (dec_val ds mod 8) \<rparr>, cursor + length ds + 2)
           else (Inl (ErrScanner ''priority''), cursor)))"

text \<open>
  Modelled from the spec: \<^verbatim>\<open>syslogparser.ParseVersion\<close>. A decimal digit followed by
  optional digits, of value 1 to 999, which a space must follow; the cursor is left on
  that space.
\<close>

definition ParseVersion_spec :: "string \<Rightarrow> nat \<Rightarrow> nat \<Rightarrow> (error + int) \<times> nat" where
  "ParseVersion_spec buff cursor l =
     (let ds = takeWhile IsDigit (upto_l buff cursor l) in
      if 1 \<le> length ds \<and> length ds \<le> 3 \<and> 1 \<le> dec_val ds
           \<and> prefix '' '' (dropWhile IsDigit (upto_l buff cursor l))
      then (Inr (int (dec_val ds)), cursor + length ds)
      else (Inl (ErrScanner ''version''), cursor))"

text \<open>
  A version scanner that takes the one byte at the cursor, a digit, as the version. The
  spec's third scenario (the Cisco ASA variant, where the year follows the \<^verbatim>\<open>>\<close>
  directly) is not reachable with \<open>ParseVersion_spec\<close>; it is with this one.
\<close>

definition ParseVersion_one_byte :: "string \<Rightarrow> nat \<Rightarrow> nat \<Rightarrow> (error + int) \<times> nat" where
  "ParseVersion_one_byte buff cursor l =
     (if l \<le> cursor then (Inl (ErrScanner ''version''), cursor)
      else if IsDigit (buff ! cursor) then (Inr (int (digit_val (buff ! cursor))), cursor + 1)
      else (Inl (ErrScanner ''version''), cursor))"

text \<open>
  Modelled from the spec: \<^verbatim>\<open>syslogparser.ParseHostname\<close>. The run of bytes up to the
  next space; the cursor is left on that space, or at the end of the buffer.
\<close>

definition ParseHostname_spec :: "string \<Rightarrow> nat \<Rightarrow> nat \<Rightarrow> (error + string) \<times> nat" where
  "ParseHostname_spec buff cursor l =
     (let run = takeWhile (\<lambda>c. c \<noteq> CHR '' '') (upto_l buff cursor l) in
      (Inr run, cursor + length run))"

text \<open>
  Modelled from the spec: \<^verbatim>\<open>syslogparser.Parse2Digits\<close>. Exactly two ASCII digits with a
  value from \<open>lo\<close> to \<open>hi\<close>, else the caller's error; the cursor moves over the digits.
\<close>

definition Parse2Digits_spec ::
  "string \<Rightarrow> nat \<Rightarrow> nat \<Rightarrow> int \<Rightarrow> int \<Rightarrow> error \<Rightarrow> (error + int) \<times> nat" where
  "Parse2Digits_spec buff cursor l lo hi e =
     (let sub = take 2 (upto_l buff cursor l) in
      if length sub = 2 \<and> list_all IsDigit sub \<and> lo \<le> int (dec_val sub) \<and> int (dec_val sub) \<le> hi
      then (Inr (int (dec_val sub)), cursor + 2)
      else (Inl e, cursor))"

section \<open>A concrete library, for running the parsers on examples\<close>

text \<open>
  An instant is a number of seconds since the Unix epoch, a number of nanoseconds and a
  zone (a name with its offset east of UTC, in seconds). The calendar is the proleptic
  Gregorian one of package \<^verbatim>\<open>time\<close>.
\<close>

datatype zone = Zone string int

datatype gotime = Instant int int zone

definition zone_offset :: "zone \<Rightarrow> int" where
  "zone_offset z = (case z of Zone name off \<Rightarrow> off)"

definition days_from_civil :: "int \<Rightarrow> int \<Rightarrow> int \<Rightarrow> int" where
  "days_from_civil y0 m0 d =
     (let y1 = y0 + (m0 - 1) div 12;
          m = (m0 - 1) mod 12 + 1;
          y = (if m \<le> 2 then y1 - 1 else y1);
          era = y div 400;
          yoe = y - era * 400;
          doy = (153 * (if 2 < m then m - 3 else m + 9) + 2) div 5 + d - 1;
          doe = yoe * 365 + yoe div 4 - yoe div 100 + doy
      in era * 146097 + doe - 719468)"

definition civil_from_days :: "int \<Rightarrow> int \<times> int \<times> int" where
  "civil_from_days z0 =
     (let z = z0 + 719468;
          era = z div 146097;
          doe = z - era * 146097;
          yoe = (doe - doe div 1460 + doe div 36524 - doe div 146096) div 365;
          doy = doe - (365 * yoe + yoe div 4 - yoe div 100);
          mp = (5 * doy + 2) div 153;
          d = doy - (153 * mp + 2) div 5 + 1;
          m = (if mp < 10 then mp + 3 else mp - 9);
          y = yoe + era * 400
      in (if m \<le> 2 then y + 1 else y, m, d))"

definition go_local_seconds :: "gotime \<Rightarrow> int" where
  "go_local_seconds t = (case t of Instant sec nsec z \<Rightarrow> sec + zone_offset z)"

definition go_Date :: "int \<Rightarrow> int \<Rightarrow> int \<Rightarrow> int \<Rightarrow> int \<Rightarrow> int \<Rightarrow> int \<Rightarrow> zone \<Rightarrow> gotime" where
  "go_Date y mo d h mi s ns z =
     Instant (days_from_civil y mo d * 86400 + h * 3600 + mi * 60 + s
                + ns div 1000000000 - zone_offset z)
             (ns mod 1000000000) z"

definition go_Year :: "gotime \<Rightarrow> int" where
  "go_Year t = fst (civil_from_days (go_local_seconds t div 86400))"

definition go_Month :: "gotime \<Rightarrow> int" where
  "go_Month t = fst (snd (civil_from_days (go_local_seconds t div 86400)))"

definition go_Day :: "gotime \<Rightarrow> int" where
  "go_Day t = snd (snd (civil_from_days (go_local_seconds t div 86400)))"

definition go_Round_Second :: "gotime \<Rightarrow> gotime" where
  "go_Round_Second t =
     (case t of Instant sec nsec z \<Rightarrow>
        if nsec < 500000000 then Instant sec 0 z else Instant (sec + 1) 0 z)"

definition zone_UTC :: zone where
  "zone_UTC = Zone ''UTC'' 0"

text \<open>
  The layouts, read strictly: every element of the layout must be there in the value as
  the layout writes it, with fields in range. (The library is more lenient in places, for
  instance about a fraction after the seconds; on the values used below both agree.)
\<close>

record tfields =
  tf_year :: int
  tf_month :: int
  tf_day :: int
  tf_hour :: int
  tf_min :: int
  tf_sec :: int
  tf_nsec :: int
  tf_zone :: "zone option"

definition num2 :: "string \<Rightarrow> int \<Rightarrow> int \<Rightarrow> (int \<times> string) option" where
  "num2 s lo hi =
     (if 2 \<le> length s \<and> list_all IsDigit (take 2 s)
          \<and> lo \<le> int (dec_val (take 2 s)) \<and> int (dec_val (take 2 s)) \<le> hi
      then Some (int (dec_val (take 2 s)), drop 2 s) else None)"

definition month_names :: "string list" where
  "month_names = [''Jan'', ''Feb'', ''Mar'', ''Apr'', ''May'', ''Jun'',
                  ''Jul'', ''Aug'', ''Sep'', ''Oct'', ''Nov'', ''Dec'']"

fun index_of :: "'a list \<Rightarrow> 'a \<Rightarrow> nat option" where
  "index_of [] x = None"
| "index_of (y # ys) x = (if x = y then Some 0 else map_option Suc (index_of ys x))"

definition num_offset :: "string \<Rightarrow> (zone \<times> string) option" where
  "num_offset s =
     (if 6 \<le> length s \<and> (hd s = CHR ''+'' \<or> hd s = CHR ''-'') \<and> s ! 3 = CHR '':'' then
        (case (num2 (drop 1 s) 0 23, num2 (drop 4 s) 0 59) of
           (Some (h, r1), Some (m, r2)) \<Rightarrow>
             Some (Zone '''' ((if hd s = CHR ''-'' then - 1 else 1) * (h * 3600 + m * 60)), r2)
         | _ \<Rightarrow> None)
      else None)"

function go_parse :: "string \<Rightarrow> string \<Rightarrow> tfields \<Rightarrow> tfields option" where
  "go_parse lay s f =
     (if lay = [] then (if s = [] then Some f else None)
      else if prefix ''2006'' lay then
        (if 4 \<le> length s \<and> list_all IsDigit (take 4 s)
         then go_parse (drop 4 lay) (drop 4 s) (f\<lparr> tf_year := int (dec_val (take 4 s)) \<rparr>)
         else None)
      else if prefix ''Jan'' lay then
        (case index_of month_names (take 3 s) of
           None \<Rightarrow> None
         | Some i \<Rightarrow> go_parse (drop 3 lay) (drop 3 s) (f\<lparr> tf_month := int i + 1 \<rparr>))
      else if prefix ''01'' lay then
        (case num2 s 1 12 of
           None \<Rightarrow> None | Some (v, r) \<Rightarrow> go_parse (drop 2 lay) r (f\<lparr> tf_month := v \<rparr>))
      else if prefix ''02'' lay then
        (case num2 s 1 31 of
           None \<Rightarrow> None | Some (v, r) \<Rightarrow> go_parse (drop 2 lay) r (f\<lparr> tf_day := v \<rparr>))
      else if prefix ''_2'' lay then
        (case num2 (if prefix '' '' s then CHR ''0'' # tl s else s) 1 31 of
           None \<Rightarrow> None | Some (v, r) \<Rightarrow> go_parse (drop 2 lay) r (f\<lparr> tf_day := v \<rparr>))
      else if prefix ''15'' lay then
        (case num2 s 0 23 of
           None \<Rightarrow> None | Some (v, r) \<Rightarrow> go_parse (drop 2 lay) r (f\<lparr> tf_hour := v \<rparr>))
      else if prefix ''04'' lay then
        (case num2 s 0 59 of
           None \<Rightarrow> None | Some (v, r) \<Rightarrow> go_parse (drop 2 lay) r (f\<lparr> tf_min := v \<rparr>))
      else if prefix ''05'' lay then
        (case num2 s 0 59 of
           None \<Rightarrow> None | Some (v, r) \<Rightarrow> go_parse (drop 2 lay) r (f\<lparr> tf_sec := v \<rparr>))
      else if prefix ''.999999999'' lay then
        (if prefix ''.'' s \<and> takeWhile IsDigit (tl s) \<noteq> [] \<and> length (takeWhile IsDigit (tl s)) \<le> 9
         then go_parse (drop 10 lay) (dropWhile IsDigit (tl s))
                (f\<lparr> tf_nsec := int (dec_val (take 9 (takeWhile IsDigit (tl s) @ replicate 9 CHR ''0''))) \<rparr>)
         else go_parse (drop 10 lay) s f)
      else if prefix ''MST'' lay then
        (if 3 \<le> length s \<and> list_all is_upper (take 3 s)
         then go_parse (drop 3 lay) (drop 3 s) (f\<lparr> tf_zone := Some (Zone (take 3 s) 0) \<rparr>)
         else None)
      else if prefix ''Z07:00'' lay then
        (if prefix ''Z'' s then go_parse (drop 6 lay) (tl s) (f\<lparr> tf_zone := Some zone_UTC \<rparr>)
         else (case num_offset s of
                 None \<Rightarrow> None
               | Some (z, r) \<Rightarrow> go_parse (drop 6 lay) r (f\<lparr> tf_zone := Some z \<rparr>)))
      else if prefix ''-07:00'' lay then
        (case num_offset s of
           None \<Rightarrow> None
         | Some (z, r) \<Rightarrow> go_parse (drop 6 lay) r (f\<lparr> tf_zone := Some z \<rparr>))
      else (case s of
              [] \<Rightarrow> None
            | c # r \<Rightarrow> if c = hd lay then go_parse (tl lay) r f else None))"
  by pat_completeness auto
termination
  by (relation "measure (\<lambda>(lay, s, f). length lay)") (auto simp: prefix_def)

definition days_in_month :: "int \<Rightarrow> int \<Rightarrow> int" where
  "days_in_month y m = days_from_civil y (m + 1) 1 - days_from_civil y m 1"

definition go_ParseInLocation :: "string \<Rightarrow> string \<Rightarrow> zone \<Rightarrow> gotime option" where
  "go_ParseInLocation layout s loc =
     (case go_parse layout s \<lparr> tf_year = 0, tf_month = 1, tf_day = 1, tf_hour = 0, tf_min = 0,
                               tf_sec = 0, tf_nsec = 0, tf_zone = None \<rparr> of
        None \<Rightarrow> None
      | Some f \<Rightarrow>
          if days_in_month (tf_year f) (tf_month f) < tf_day f then None
          else Some (go_Date (tf_year f) (tf_month f) (tf_day f) (tf_hour f) (tf_min f)
                       (tf_sec f) (tf_nsec f)
                       (case tf_zone f of None \<Rightarrow> loc | Some z \<Rightarrow> z)))"

text \<open>
  Decimal fractions are computed exactly here, where \<^verbatim>\<open>float64\<close> arithmetic would round.
\<close>

definition frac9 :: "float64 \<Rightarrow> string" where
  "frac9 f =
     (case f of
        FloatZero \<Rightarrow> ''000000000''
      | FloatOf s \<Rightarrow>
          take 9 (takeWhile IsDigit (drop 1 (dropWhile (\<lambda>c. c \<noteq> CHR ''.'') s))
                  @ replicate 9 CHR ''0''))"

text \<open>The clock of the examples reads 2023-11-14 22:13:20.123456789 UTC, in a zone one hour east.\<close>

definition go_env :: "(gotime, zone) env" where
  "go_env =
     \<lparr> time_Now = Instant 1700000000 123456789 (Zone ''Local'' 3600),
       time_Zero = Instant (- 62135596800) 0 zone_UTC,
       time_UTC = (\<lambda>t. case t of Instant sec nsec z \<Rightarrow> Instant sec nsec zone_UTC),
       time_Round_Second = go_Round_Second,
       time_ParseInLocation = go_ParseInLocation,
       time_Parse = (\<lambda>layout s. go_ParseInLocation layout s zone_UTC),
       time_Unix = (\<lambda>sec nsec. Instant (sec + nsec div 1000000000) (nsec mod 1000000000)
                                  (Zone ''Local'' 3600)),
       time_Date = go_Date,
       time_Year = go_Year,
       time_Month = go_Month,
       time_Day = go_Day,
       time_Hour = (\<lambda>t. (go_local_seconds t mod 86400) div 3600),
       time_Minute = (\<lambda>t. (go_local_seconds t mod 3600) div 60),
       time_Second = (\<lambda>t. go_local_seconds t mod 60),
       time_Nanosecond = (\<lambda>t. case t of Instant sec nsec z \<Rightarrow> nsec),
       time_Location = (\<lambda>t. case t of Instant sec nsec z \<Rightarrow> z),
       time_UTC_loc = zone_UTC,
       time_Local = Zone ''Local'' 3600,
       os_Hostname = Some ''collector'',
       strconv_ParseFloat_ok = (\<lambda>s. s \<noteq> [] \<and> list_all (\<lambda>c. IsDigit c \<or> c = CHR ''.'') s),
       float_nanos = (\<lambda>f. int (dec_val (frac9 f))),
       float_frac_text = (\<lambda>f. ''0.'' @ frac9 f),
       ParsePriority = ParsePriority_spec,
       ParseVersion = ParseVersion_spec,
       ParseHostname = ParseHostname_spec,
       Parse2Digits = Parse2Digits_spec,
       NO_VERSION = - 1 \<rparr>"

text \<open>The same, with the version scanner that takes one byte.\<close>

definition go_env_one_byte :: "(gotime, zone) env" where
  "go_env_one_byte = go_env\<lparr> ParseVersion := ParseVersion_one_byte \<rparr>"

section \<open>Auxiliary notions for the proofs\<close>

text \<open>Two states of the RFC 5424 parser over the same buffer, with the same message.\<close>

definition same_input :: "'t rfc5424_Parser \<Rightarrow> 't rfc5424_Parser \<Rightarrow> bool" where
  "same_input p q = (p5424_buff q = p5424_buff p \<and> p5424_l q = p5424_l p
                      \<and> p5424_message q = p5424_message p)"

section \<open>Example lines\<close>

text \<open>
  A SonicWall line as in the parser's test, and one whose \<^verbatim>\<open>time="..."\<close> field holds no
  date.
\<close>

definition sonicwall_line :: string where
  "sonicwall_line = ''<34>id=firewall sn=18B1690729A8 fw=10.205.123.15 time='' @ [dquote]
       @ ''2016-08-19 18:05:44 UTC'' @ [dquote] @ '' pri=1 c=32 m=609''"

definition sonicwall_bad_line :: string where
  "sonicwall_bad_line = ''<34>fw=1.2.3.4 time='' @ [dquote] @ ''yesterday'' @ [dquote]"

section \<open>Properties of the framer\<close>

declare itoa.simps [simp del]
declare scan_all.simps [simp del]

lemma digit_char:
  assumes "k < 10"
  shows "IsDigit (''0123456789'' ! k) \<and> digit_val (''0123456789'' ! k) = k"
proof -
  from assms have "k = 0 \<or> k = 1 \<or> k = 2 \<or> k = 3 \<or> k = 4 \<or> k = 5 \<or> k = 6 \<or> k = 7 \<or> k = 8 \<or> k = 9"
    by arith
  then show ?thesis
    by (elim disjE) (simp_all add: IsDigit_def digit_val_def)
qed

lemma itoa_digits: "\<forall>c\<in>set (itoa n). IsDigit c"
proof (induction n rule: itoa.induct)
  case (1 n)
  show ?case
  proof (cases "n < 10")
    case True
    then show ?thesis by (subst itoa.simps) (simp add: digit_char)
  next
    case False
    then have "n mod 10 < 10" by simp
    with False 1 show ?thesis by (subst itoa.simps) (simp add: digit_char)
  qed
qed

lemma itoa_nonempty: "itoa n \<noteq> []"
  by (subst itoa.simps) simp

lemma dec_val_snoc: "dec_val (ds @ [c]) = 10 * dec_val ds + digit_val c"
  by (simp add: dec_val_def)

lemma dec_val_itoa: "dec_val (itoa n) = n"
proof (induction n rule: itoa.induct)
  case (1 n)
  show ?case
  proof (cases "n < 10")
    case True
    then show ?thesis by (subst itoa.simps) (simp add: digit_char dec_val_def)
  next
    case False
    then have "n mod 10 < 10" by simp
    with False 1 show ?thesis by (subst itoa.simps) (simp add: digit_char dec_val_snoc)
  qed
qed

lemma not_digit_space: "\<not> IsDigit CHR '' ''"
  by (simp add: IsDigit_def)

lemma split_frame: "rfc6587_split (frame m @ xs) b = Token (length (frame m)) m"
proof -
  have tw: "takeWhile IsDigit (itoa (length m) @ CHR '' '' # m @ xs) = itoa (length m)"
    using itoa_digits [of "length m"] not_digit_space by (simp add: takeWhile_append2)
  have dw: "dropWhile IsDigit (itoa (length m) @ CHR '' '' # m @ xs) = CHR '' '' # m @ xs"
    using itoa_digits [of "length m"] not_digit_space by (simp add: dropWhile_append2)
  show ?thesis
    by (simp add: rfc6587_split_def frame_def tw dw dec_val_itoa itoa_nonempty Let_def)
qed

lemma split_token_ext:
  assumes "rfc6587_split buf b = Token adv tok"
  shows "rfc6587_split (buf @ ext) b' = Token adv tok"
proof -
  from assms obtain c payload where r: "dropWhile IsDigit buf = c # payload"
    by (auto simp: rfc6587_split_def Let_def split: list.splits if_splits)
  then have ex: "\<exists>x\<in>set buf. \<not> IsDigit x"
    by (metis dropWhile_eq_Nil_conv list.distinct(1))
  have tw: "takeWhile IsDigit (buf @ ext) = takeWhile IsDigit buf"
    using ex by (auto simp: takeWhile_append1)
  have dw: "dropWhile IsDigit (buf @ ext) = c # payload @ ext"
    using ex r by (auto simp: dropWhile_append1)
  from assms r show ?thesis
    by (auto simp: rfc6587_split_def Let_def tw dw split: if_splits)
qed

lemma split_error_ext:
  assumes "rfc6587_split buf False = FramingError"
  shows "rfc6587_split (buf @ ext) b' = FramingError"
proof -
  from assms obtain c payload where r: "dropWhile IsDigit buf = c # payload"
    by (auto simp: rfc6587_split_def Let_def split: list.splits if_splits)
  then have ex: "\<exists>x\<in>set buf. \<not> IsDigit x"
    by (metis dropWhile_eq_Nil_conv list.distinct(1))
  have tw: "takeWhile IsDigit (buf @ ext) = takeWhile IsDigit buf"
    using ex by (auto simp: takeWhile_append1)
  have dw: "dropWhile IsDigit (buf @ ext) = c # payload @ ext"
    using ex r by (auto simp: dropWhile_append1)
  from assms r show ?thesis
    by (auto simp: rfc6587_split_def Let_def tw dw split: if_splits)
qed

lemma scan_all_chunks: "scan_all buf chunks = scan_all (buf @ concat chunks) []"
proof (induction buf chunks rule: scan_all.induct)
  case (1 buf chunks)
  show ?case
  proof (cases chunks)
    case Nil
    then show ?thesis by simp
  next
    case (Cons c cs)
    show ?thesis
    proof (cases "rfc6587_split buf False")
      case MoreData
      have "scan_all (buf @ c) cs = scan_all ((buf @ c) @ concat cs) []"
        by (rule 1(1)) (use MoreData Cons in simp_all)
      with Cons MoreData show ?thesis
        by (subst scan_all.simps) simp
    next
      case (Token adv tok)
      then have e: "rfc6587_split (buf @ concat chunks) True = Token adv tok"
        by (rule split_token_ext)
      have le: "adv \<le> length buf"
      proof -
        have "length (takeWhile IsDigit buf) + length (dropWhile IsDigit buf) = length buf"
          by (metis length_append takeWhile_dropWhile_id)
        with Token show ?thesis
          by (auto simp: rfc6587_split_def Let_def split: list.splits if_splits)
      qed
      have ih: "scan_all (drop adv buf) chunks = scan_all (drop adv buf @ concat chunks) []"
        by (rule 1(2)) (use Token Cons in simp_all)
      have l: "scan_all buf chunks = (let (toks, e) = scan_all (drop adv buf) chunks in (tok # toks, e))"
        using Token Cons by (subst scan_all.simps) simp
      have r: "scan_all (buf @ concat chunks) [] =
                 (let (toks, e) = scan_all (drop adv (buf @ concat chunks)) [] in (tok # toks, e))"
        using e by (subst scan_all.simps) simp
      from l r ih le show ?thesis by simp
    next
      case FramingError
      then have e: "rfc6587_split (buf @ concat chunks) True = FramingError"
        by (rule split_error_ext)
      from FramingError Cons have l: "scan_all buf chunks = ([], ScanFailed)"
        by (subst scan_all.simps) simp
      from e have r: "scan_all (buf @ concat chunks) [] = ([], ScanFailed)"
        by (subst scan_all.simps) simp
      from l r show ?thesis by simp
    qed
  qed
qed

lemma scan_all_frames: "scan_all (concat (map frame ms)) [] = (ms, EndOfInput)"
proof (induction ms)
  case Nil
  show ?case by (subst scan_all.simps) (simp add: rfc6587_split_def)
next
  case (Cons m ms)
  have "rfc6587_split (frame m @ concat (map frame ms)) True = Token (length (frame m)) m"
    by (rule split_frame)
  with Cons show ?case
    by (subst scan_all.simps) simp
qed

text \<open>
  Claim C1. For every finite sequence of messages, however the stream of their
  concatenated octet-counted frames is cut into reads, scanning yields exactly the
  messages, in order and byte for byte, and the scan after the last one reports the end
  of the input, not an error.
\<close>

theorem framer_roundtrip:
  assumes "concat chunks = concat (map frame ms)"
  shows "scan_all [] chunks = (ms, EndOfInput)"
  using assms scan_all_chunks [of "[]" chunks] scan_all_frames [of ms] by simp


lemma split_leftover:
  assumes "L \<noteq> []" "\<not> begins_with_frame L"
  shows "rfc6587_split L True = FramingError"
proof (cases "dropWhile IsDigit L")
  case Nil
  show ?thesis unfolding rfc6587_split_def Let_def Nil using assms(1) by simp
next
  case (Cons c p)
  from assms(2) show ?thesis
    unfolding rfc6587_split_def begins_with_frame_def Let_def Cons by auto
qed

lemma split_count:
  assumes "ds \<noteq> []" "\<forall>c\<in>set ds. IsDigit c" "dec_val ds \<le> length payload"
  shows "rfc6587_split (ds @ CHR '' '' # payload) b
           = Token (length ds + 1 + dec_val ds) (take (dec_val ds) payload)"
proof -
  have tw: "takeWhile IsDigit (ds @ CHR '' '' # payload) = ds"
    using assms(2) not_digit_space by (simp add: takeWhile_append2)
  have dw: "dropWhile IsDigit (ds @ CHR '' '' # payload) = CHR '' '' # payload"
    using assms(2) not_digit_space by (simp add: dropWhile_append2)
  show ?thesis
    using assms(1,3) by (simp add: rfc6587_split_def tw dw Let_def)
qed

text \<open>
  Claim C2. When the count field declares fewer octets than follow it, and the bytes left
  over after that many octets do not begin with a complete frame, the first scan emits
  exactly the declared number of payload bytes and the scan that follows fails with a
  framing error, however the stream is cut into reads.
\<close>

theorem framer_short_count:
  assumes "ds \<noteq> []" and "list_all IsDigit ds"
    and "concat chunks = ds @ '' '' @ payload"
    and "dec_val ds < length payload"
    and "\<not> begins_with_frame (drop (dec_val ds) payload)"
  shows "scan_all [] chunks = ([take (dec_val ds) payload], ScanFailed)"
proof -
  let ?n = "dec_val ds"
  have sp: "rfc6587_split (ds @ CHR '' '' # payload) True = Token (length ds + 1 + ?n) (take ?n payload)"
    using assms(1,2,4) by (intro split_count) (simp_all add: list_all_iff)
  have ne: "drop ?n payload \<noteq> []" using assms(4) by simp
  have l: "scan_all (drop ?n payload) [] = ([], ScanFailed)"
    using split_leftover [OF ne assms(5)] by (subst scan_all.simps) simp
  have "scan_all (ds @ CHR '' '' # payload) [] = ([take ?n payload], ScanFailed)"
    using sp l by (subst scan_all.simps) simp
  then show ?thesis
    using assms(3) scan_all_chunks [of "[]" chunks] by simp
qed

theorem framer_roundtrip_witness:
  "concat [''10 I am'', '' test.12 I am test 2.9 h'', ''ahahahah'']
     = concat (map frame [''I am test.'', ''I am test 2.'', ''hahahahah''])
   \<and> scan_all [] [''10 I am'', '' test.12 I am test 2.9 h'', ''ahahahah'']
     = ([''I am test.'', ''I am test 2.'', ''hahahahah''], EndOfInput)"
proof -
  have h: "concat [''10 I am'', '' test.12 I am test 2.9 h'', ''ahahahah'']
     = concat (map frame [''I am test.'', ''I am test 2.'', ''hahahahah''])"
    by code_simp
  show ?thesis using h framer_roundtrip [OF h] by simp
qed

theorem framer_short_count_witness:
  "''9'' \<noteq> [] \<and> list_all IsDigit ''9''
   \<and> concat [''9 I am'', '' test.2 ab''] = ''9'' @ '' '' @ ''I am test.2 ab''
   \<and> dec_val ''9'' < length ''I am test.2 ab''
   \<and> \<not> begins_with_frame (drop (dec_val ''9'') ''I am test.2 ab'')
   \<and> scan_all [] [''9 I am'', '' test.2 ab''] = ([''I am test''], ScanFailed)"
proof -
  have h1: "''9'' \<noteq> []" by simp
  have h2: "list_all IsDigit ''9''" by (simp add: IsDigit_def)
  have h3: "concat [''9 I am'', '' test.2 ab''] = ''9'' @ '' '' @ ''I am test.2 ab''" by simp
  have v: "dec_val ''9'' = 9" by (simp add: dec_val_def digit_val_def)
  have h4: "dec_val ''9'' < length ''I am test.2 ab''" by (simp add: v)
  have h5: "\<not> begins_with_frame (drop (dec_val ''9'') ''I am test.2 ab'')"
    by (simp add: v begins_with_frame_def IsDigit_def)
  have "scan_all [] [''9 I am'', '' test.2 ab''] = ([take (dec_val ''9'') ''I am test.2 ab''], ScanFailed)"
    by (rule framer_short_count [OF h1 h2 h3 h4 h5])
  then show ?thesis using h1 h2 h3 h4 h5 by (simp add: v)
qed

section \<open>Properties of the receiver's record assembly\<close>

lemma strings_Index_char:
  "strings_Index s [c] = (if c \<in> set s then int (length (takeWhile (\<lambda>x. x \<noteq> c) s)) else - 1)"
  by (induction s) (auto simp: Let_def)

lemma colon_in_first_two:
  "c \<in> set (take 2 s) \<longleftrightarrow> c \<in> set s \<and> length (takeWhile (\<lambda>x. x \<noteq> c) s) \<le> 1"
proof (cases s)
  case Nil
  then show ?thesis by simp
next
  case (Cons a t)
  then show ?thesis
    by (cases t) (auto simp: numeral_2_eq_2)
qed

lemma truncate_at_index:
  "(if 1 < strings_Index client [c] then take (nat (strings_Index client [c])) client else client)
     = (if c \<in> set (take 2 client) then client else takeWhile (\<lambda>x. x \<noteq> c) client)"
proof (cases "c \<in> set client")
  case True
  have "take (length (takeWhile (\<lambda>x. x \<noteq> c) client)) client = takeWhile (\<lambda>x. x \<noteq> c) client"
    by (metis takeWhile_eq_take)
  with True show ?thesis
    by (auto simp: strings_Index_char colon_in_first_two)
next
  case False
  have tw: "takeWhile (\<lambda>x. x \<noteq> c) client = client"
    by (rule takeWhile_eq_all_conv [THEN iffD2]) (use False in auto)
  have i: "strings_Index client [c] = - 1"
    using False by (simp add: strings_Index_char)
  have nt: "c \<notin> set (take 2 client)"
    using False by (meson in_set_takeD)
  show ?thesis unfolding i tw using nt by simp
qed

lemma map_read_hostname:
  "map_read (m(''client'' \<mapsto> v)) ''hostname'' = map_read m ''hostname''"
  "map_read (m(''timestamp'' \<mapsto> w)) ''hostname'' = map_read m ''hostname''"
  by (simp_all add: map_read_def)

lemma Server_parser_hostname:
  assumes "GetParser_run fmt line = Ret (err, parts)"
    and "map_read parts ''hostname'' = VString ''''"
    and "format_ident fmt = RFC3164 \<or> format_ident fmt = Automatic"
  shows "\<exists>parts' n. Server_parser env fmt line client tlsPeer = Ret (parts', n, err)
           \<and> parts' ''hostname'' =
               Some (VString (if 1 < strings_Index client '':''
                              then take (nat (strings_Index client '':'')) client else client))"
  unfolding Server_parser_def Let_def assms(1)
  using assms(2,3)
  by (simp add: map_read_hostname)

text \<open>
  Claim C8, as the code has it. Under the RFC 3164 or the Automatic format, when the
  parser's host name is the empty string, the assembled record's host name is the client
  address cut at its first colon, unless that colon is one of the first two bytes of the
  client address (the source's guard is \<^verbatim>\<open>i > 1\<close>); then, and when the address has no
  colon, it is the whole client address.
\<close>

theorem hostname_fallback:
  assumes "GetParser_run fmt line = Ret (err, parts)"
    and "map_read parts ''hostname'' = VString ''''"
    and "format_ident fmt = RFC3164 \<or> format_ident fmt = Automatic"
  shows "\<exists>parts' n. Server_parser env fmt line client tlsPeer = Ret (parts', n, err)
           \<and> parts' ''hostname'' =
               Some (VString (if CHR '':'' \<in> set (take 2 client) then client
                              else takeWhile (\<lambda>c. c \<noteq> CHR '':'') client))"
  using Server_parser_hostname [OF assms, of env client tlsPeer]
  unfolding truncate_at_index .

text \<open>
  The claim as stated fails for the client address \<^verbatim>\<open>a:514\<close>: the first colon is at
  index 1, and the record's host name is the whole address, not \<^verbatim>\<open>a\<close>.
\<close>

theorem hostname_fallback_counterexample:
  "(case Server_parser go_env
           (format_custom [''hostname'' \<mapsto> VString '''']\<lparr> format_ident := RFC3164 \<rparr>)
           ''<13>x'' ''a:514'' '''' of
      Panic \<Rightarrow> False
    | Ret (parts, n, err) \<Rightarrow>
        parts ''hostname'' = Some (VString ''a:514'')
        \<and> parts ''hostname'' \<noteq> Some (VString (takeWhile (\<lambda>c. c \<noteq> CHR '':'') ''a:514'')))"
  by (simp add: Server_parser_def format_custom_def Let_def map_read_def)

text \<open>When the parser's map has no \<^verbatim>\<open>timestamp\<close> key, the record gets the current UTC instant.\<close>

lemma timestamp_missing_filled:
  assumes "GetParser_run fmt line = Ret (err, parts)" and "parts ''timestamp'' = None"
  shows "\<exists>parts' n. Server_parser env fmt line client tlsPeer = Ret (parts', n, err)
           \<and> parts' ''timestamp'' = Some (VTime (time_UTC env (time_Now env)))"
  unfolding Server_parser_def Let_def assms(1)
  using assms(2) by (simp add: map_read_def)

text \<open>
  Claim C9 fails on the code for a timestamp that is set to the empty string: the source
  assigns the current instant to its local variable \<^verbatim>\<open>timestamp\<close>, not to
  \<^verbatim>\<open>logParts["timestamp"]\<close>, and the record handed to the handler keeps the empty string.
\<close>

theorem timestamp_empty_kept:
  "(case Server_parser go_env (format_custom [''timestamp'' \<mapsto> VString ''''])
           ''<13>x'' ''10.0.0.1:514'' '''' of
      Panic \<Rightarrow> False
    | Ret (parts, n, err) \<Rightarrow> parts ''timestamp'' = Some (VString ''''))"
  by (simp add: Server_parser_def format_custom_def Let_def map_read_def)

section \<open>Properties of the RFC 3164 parser\<close>

lemma rfc3164_Parse_no_priority:
  assumes "fst (ParsePriority env buff 0 (length buff)) = Inl e"
  shows "\<exists>p. rfc3164_Parse env (rfc3164_NewParser env buff) = Ret (None, p)
           \<and> p3164_priority p = \<lparr> Priority_P = 13, Facility_Value = 1, Severity_Value = 5 \<rparr>
           \<and> p3164_message p = \<lparr> msg_tag = '''', msg_content = buff \<rparr>
           \<and> p3164_header p = \<lparr> hdr3164_timestamp = time_UTC env (time_Now env),
                                 hdr3164_hostname = '''' \<rparr>"
proof -
  obtain c where pp: "ParsePriority env buff 0 (length buff) = (Inl e, c)"
    using assms by (cases "ParsePriority env buff 0 (length buff)") simp
  show ?thesis
    by (simp add: rfc3164_Parse_def rfc3164_NewParser_def Let_def pp rfc3164_movePastContent_def)
qed

text \<open>
  Claim C3. For every buffer on which the priority scanner fails, \<^verbatim>\<open>Parse\<close> of a new
  RFC 3164 parser returns no error, and \<^verbatim>\<open>Dump\<close> gives priority 13, facility 1, severity
  5, the whole buffer as content, an empty host name and tag, and the current instant (in
  UTC) as timestamp.
\<close>

theorem rfc3164_no_priority:
  assumes "fst (ParsePriority env buff 0 (length buff)) = Inl e"
  shows "\<exists>p. rfc3164_Parse env (rfc3164_NewParser env buff) = Ret (None, p)
           \<and> rfc3164_Dump p =
                [''timestamp'' \<mapsto> VTime (time_UTC env (time_Now env)),
                 ''hostname'' \<mapsto> VString '''',
                 ''tag'' \<mapsto> VString '''',
                 ''content'' \<mapsto> VString buff,
                 ''priority'' \<mapsto> VInt 13,
                 ''facility'' \<mapsto> VInt 1,
                 ''severity'' \<mapsto> VInt 5]"
proof -
  from rfc3164_Parse_no_priority [OF assms] obtain p where
    p: "rfc3164_Parse env (rfc3164_NewParser env buff) = Ret (None, p)"
      "p3164_priority p = \<lparr> Priority_P = 13, Facility_Value = 1, Severity_Value = 5 \<rparr>"
      "p3164_message p = \<lparr> msg_tag = '''', msg_content = buff \<rparr>"
      "p3164_header p = \<lparr> hdr3164_timestamp = time_UTC env (time_Now env), hdr3164_hostname = '''' \<rparr>"
    by blast
  have "rfc3164_Dump p =
                [''timestamp'' \<mapsto> VTime (time_UTC env (time_Now env)),
                 ''hostname'' \<mapsto> VString '''',
                 ''tag'' \<mapsto> VString '''',
                 ''content'' \<mapsto> VString buff,
                 ''priority'' \<mapsto> VInt 13,
                 ''facility'' \<mapsto> VInt 1,
                 ''severity'' \<mapsto> VInt 5]"
    unfolding rfc3164_Dump_def p(2,3,4) by simp
  with p(1) show ?thesis by blast
qed

lemma go_env_ParsePriority: "ParsePriority go_env = ParsePriority_spec"
  by (simp add: go_env_def)

theorem rfc3164_no_priority_witness:
  "fst (ParsePriority go_env ''Oct 11 22:14:15 Testing no priority'' 0
          (length ''Oct 11 22:14:15 Testing no priority'')) = Inl (ErrScanner ''priority'')
   \<and> (\<exists>p. rfc3164_Parse go_env (rfc3164_NewParser go_env ''Oct 11 22:14:15 Testing no priority'')
              = Ret (None, p)
           \<and> rfc3164_Dump p =
                [''timestamp'' \<mapsto> VTime (time_UTC go_env (time_Now go_env)),
                 ''hostname'' \<mapsto> VString '''',
                 ''tag'' \<mapsto> VString '''',
                 ''content'' \<mapsto> VString ''Oct 11 22:14:15 Testing no priority'',
                 ''priority'' \<mapsto> VInt 13,
                 ''facility'' \<mapsto> VInt 1,
                 ''severity'' \<mapsto> VInt 5])"
proof -
  have h: "fst (ParsePriority go_env ''Oct 11 22:14:15 Testing no priority'' 0
          (length ''Oct 11 22:14:15 Testing no priority'')) = Inl (ErrScanner ''priority'')"
    by (simp add: go_env_ParsePriority ParsePriority_spec_def upto_l_def)
  show ?thesis using h rfc3164_no_priority [OF h] by blast
qed

text \<open>
  \<^verbatim>\<open>parseTimestamp\<close> reads \<^verbatim>\<open>p.buff[p.cursor]\<close> first: when the priority scanner leaves
  the cursor at the end of the buffer, \<^verbatim>\<open>Parse\<close> panics.
\<close>

lemma rfc3164_Parse_panic_at_end:
  assumes "ParsePriority env buff 0 (length buff) = (Inr pri, c)" and "length buff \<le> c"
  shows "rfc3164_Parse env (rfc3164_NewParser env buff) = Panic"
  using assms
  by (simp add: rfc3164_Parse_def rfc3164_NewParser_def Let_def rfc3164_parseHeader_def
      rfc3164_parseTimestamp_def)

text \<open>
  Claim C10 fails on the code: on the buffer \<^verbatim>\<open><34>\<close>, which ends right after a valid
  priority, \<^verbatim>\<open>Parse\<close> reads index 4 of a buffer of length 4 and panics.
\<close>

theorem rfc3164_Parse_panics_after_priority:
  "rfc3164_Parse go_env (rfc3164_NewParser go_env ''<34>'') = Panic"
proof -
  have "ParsePriority go_env ''<34>'' 0 (length ''<34>'')
          = (Inr \<lparr> Priority_P = 34, Facility_Value = 4, Severity_Value = 2 \<rparr>, 4)"
    by (simp add: go_env_ParsePriority ParsePriority_spec_def upto_l_def IsDigit_def dec_val_def
        digit_val_def)
  then show ?thesis by (rule rfc3164_Parse_panic_at_end) simp
qed


text \<open>The dispatch to the SonicWall dialect.\<close>

lemma skipSpace_keeps:
  "p3164_buff (rfc3164_skipSpace p) = p3164_buff p"
  "p3164_location (rfc3164_skipSpace p) = p3164_location p"
  "p3164_l (rfc3164_skipSpace p) = p3164_l p"
  "p3164_message (rfc3164_skipSpace p) = p3164_message p"
  "p3164_header (rfc3164_skipSpace p) = p3164_header p"
  "p3164_priority (rfc3164_skipSpace p) = p3164_priority p"
  "p3164_skipTag (rfc3164_skipSpace p) = p3164_skipTag p"
  "p3164_version (rfc3164_skipSpace p) = p3164_version p"
  by (simp_all add: rfc3164_skipSpace_def)

lemma tryFormats_two_none:
  assumes "p3164_l p < p3164_cursor p + length a
           \<or> time_ParseInLocation env a (take (length a) (drop (p3164_cursor p) (p3164_buff p)))
                (p3164_location p) = None"
    and "p3164_l p < p3164_cursor p + length b
           \<or> time_ParseInLocation env b (take (length b) (drop (p3164_cursor p) (p3164_buff p)))
                (p3164_location p) = None"
  shows "rfc3164_tryFormats env p [a, b] = None" and "rfc3164_tryFormats env p [b, a] = None"
  using assms by (auto simp: Let_def)

lemma parseTimestamp_sonicwall:
  assumes "p3164_cursor p < length (p3164_buff p)"
    and "p3164_l p < p3164_cursor p + length time_Stamp
           \<or> time_ParseInLocation env time_Stamp
                (take (length time_Stamp) (drop (p3164_cursor p) (p3164_buff p)))
                (p3164_location p) = None"
    and "p3164_l p < p3164_cursor p + length time_RFC3339
           \<or> time_ParseInLocation env time_RFC3339
                (take (length time_RFC3339) (drop (p3164_cursor p) (p3164_buff p)))
                (p3164_location p) = None"
    and "\<not> ciscoASARegexp_MatchString (p3164_buff p)"
    and "strings_Contains (p3164_buff p) (''time='' @ [dquote])"
  shows "rfc3164_parseTimestamp env p
           = Ret ((time_Zero env, Some ErrSonicOSFormat),
                  rfc3164_skipSpace (p\<lparr> p3164_cursor := length time_Stamp \<rparr>))"
proof -
  note tf = tryFormats_two_none [OF assms(2,3)]
  show ?thesis
    unfolding rfc3164_parseTimestamp_def Let_def
    using assms(1,4,5) by (simp add: tf del: rfc3164_tryFormats.simps)
qed

lemma parse_layouts_two:
  assumes "time_ParseInLocation env a s loc = Some t
           \<or> (time_ParseInLocation env a s loc = None \<and> time_ParseInLocation env b s loc = Some t)"
  shows "parse_layouts env [a, b] s loc = Some (fixTimestampIfNeeded env t)"
  using assms by auto

lemma rfc3164_Parse_sonicwall:
  assumes pri: "ParsePriority env buff 0 (length buff) = (Inr pri, c)"
    and inb: "c < length buff"
    and stamp: "length buff < c + length time_Stamp
           \<or> time_ParseInLocation env time_Stamp (take (length time_Stamp) (drop c buff))
                (time_Local env) = None"
    and rfc: "length buff < c + length time_RFC3339
           \<or> time_ParseInLocation env time_RFC3339 (take (length time_RFC3339) (drop c buff))
                (time_Local env) = None"
    and cisco: "\<not> ciscoASARegexp_MatchString buff"
    and sentinel: "strings_Contains buff (''time='' @ [dquote])"
    and layout:
      "time_ParseInLocation env ''2006-01-02 15:04:05 MST''
          (case sonicWallTimestampCaptureRe buff of None \<Rightarrow> '''' | Some m \<Rightarrow> m) (time_Local env)
         = Some t
       \<or> (time_ParseInLocation env ''2006-01-02 15:04:05 MST''
            (case sonicWallTimestampCaptureRe buff of None \<Rightarrow> '''' | Some m \<Rightarrow> m) (time_Local env)
           = None
          \<and> time_ParseInLocation env ''2006-01-02 15:04:05''
              (case sonicWallTimestampCaptureRe buff of None \<Rightarrow> '''' | Some m \<Rightarrow> m) (time_Local env)
             = Some t)"
  shows "\<exists>p. rfc3164_Parse env (rfc3164_NewParser env buff) = Ret (None, p)
           \<and> p3164_priority p = pri
           \<and> p3164_message p = \<lparr> msg_tag = '''', msg_content = buff \<rparr>
           \<and> p3164_header p =
               \<lparr> hdr3164_timestamp = fixTimestampIfNeeded env t,
                 hdr3164_hostname = (case sonicWallHostnameCaptureRe buff of
                                       None \<Rightarrow> '''' | Some m \<Rightarrow> m) \<rparr>"
proof -
  define p2 where "p2 = (rfc3164_NewParser env buff)
     \<lparr> p3164_message := \<lparr> msg_tag = [], msg_content = buff \<rparr>,
       p3164_header := (p3164_header (rfc3164_NewParser env buff))
          \<lparr> hdr3164_timestamp := time_UTC env (time_Now env) \<rparr>,
       p3164_cursor := c \<rparr>"
  define p3 where "p3 = rfc3164_skipSpace (p2\<lparr> p3164_cursor := length time_Stamp \<rparr>)"
  have f: "p3164_buff p2 = buff" "p3164_cursor p2 = c" "p3164_l p2 = length buff"
    "p3164_location p2 = time_Local env"
    by (simp_all add: p2_def rfc3164_NewParser_def)
  have ts: "rfc3164_parseTimestamp env p2 = Ret ((time_Zero env, Some ErrSonicOSFormat), p3)"
    unfolding p3_def
    by (rule parseTimestamp_sonicwall) (use inb stamp rfc cisco sentinel in \<open>simp_all add: f\<close>)
  have hd: "rfc3164_parseHeader env p2
            = Ret ((\<lparr> hdr3164_timestamp = time_Zero env, hdr3164_hostname = [] \<rparr>,
                    Some ErrSonicOSFormat), p3)"
    unfolding rfc3164_parseHeader_def Let_def ts by simp
  have g: "p3164_buff p3 = buff" "p3164_location p3 = time_Local env"
    by (simp_all add: p3_def skipSpace_keeps f)
  have sw: "parseSonicWallHeader env p3
            = Inr \<lparr> hdr3164_timestamp = fixTimestampIfNeeded env t,
                    hdr3164_hostname = (case sonicWallHostnameCaptureRe buff of
                                          None \<Rightarrow> [] | Some m \<Rightarrow> m) \<rparr>"
    unfolding parseSonicWallHeader_def Let_def g
    by (simp only: parse_layouts_two [OF layout] option.case)
  have p2n: "p2 = \<lparr> p3164_buff = buff, p3164_cursor = c, p3164_l = length buff,
       p3164_priority = \<lparr> Priority_P = 0, Facility_Value = 0, Severity_Value = 0 \<rparr>,
       p3164_version = 0,
       p3164_header = \<lparr> hdr3164_timestamp = time_UTC env (time_Now env),
                        hdr3164_hostname = [] \<rparr>,
       p3164_message = \<lparr> msg_tag = [], msg_content = buff \<rparr>,
       p3164_location = time_Local env, p3164_skipTag = False \<rparr>"
    by (simp add: p2_def rfc3164_NewParser_def)
  note hd' = hd [unfolded p2n]
  have "rfc3164_Parse env (rfc3164_NewParser env buff)
          = rfc3164_Parse_finish env pri
              \<lparr> hdr3164_timestamp = fixTimestampIfNeeded env t,
                hdr3164_hostname = (case sonicWallHostnameCaptureRe buff of
                                      None \<Rightarrow> [] | Some m \<Rightarrow> m) \<rparr> True p3"
    by (simp add: rfc3164_Parse_def Let_def rfc3164_NewParser_def pri hd' sw
        rfc3164_Parse_dialect_def)
  then show ?thesis
    by (simp add: rfc3164_Parse_finish_def Let_def g)
qed


text \<open>
  Claim C6, as the code has it. When the priority parses and leaves the cursor inside the
  buffer, neither canonical layout matches at the cursor, the buffer has no match of
  \<^verbatim>\<open><\d+>:\<close> (which the source tests first and sends to the Cisco ASA dialect) and it
  contains \<^verbatim>\<open>time="\<close>, and when the text captured by \<^verbatim>\<open>time="([^"]+)"\<close> parses with the
  layout \<^verbatim>\<open>2006-01-02 15:04:05 MST\<close> or, failing that, with \<^verbatim>\<open>2006-01-02 15:04:05\<close>, then
  \<^verbatim>\<open>Parse\<close> returns no error, the timestamp is that parse (year-repaired), the host name is
  the text captured by \<^verbatim>\<open>fw=([0-9.]+)\<close> (empty without a match), the content is the whole
  buffer and the tag is empty.
\<close>

theorem rfc3164_sonicwall:
  assumes "ParsePriority env buff 0 (length buff) = (Inr pri, c)"
    and "c < length buff"
    and "length buff < c + length time_Stamp
           \<or> time_ParseInLocation env time_Stamp (take (length time_Stamp) (drop c buff))
                (time_Local env) = None"
    and "length buff < c + length time_RFC3339
           \<or> time_ParseInLocation env time_RFC3339 (take (length time_RFC3339) (drop c buff))
                (time_Local env) = None"
    and "\<not> ciscoASARegexp_MatchString buff"
    and "strings_Contains buff (''time='' @ [dquote])"
    and "time_ParseInLocation env ''2006-01-02 15:04:05 MST''
          (case sonicWallTimestampCaptureRe buff of None \<Rightarrow> '''' | Some m \<Rightarrow> m) (time_Local env)
         = Some t
       \<or> (time_ParseInLocation env ''2006-01-02 15:04:05 MST''
            (case sonicWallTimestampCaptureRe buff of None \<Rightarrow> '''' | Some m \<Rightarrow> m) (time_Local env)
           = None
          \<and> time_ParseInLocation env ''2006-01-02 15:04:05''
              (case sonicWallTimestampCaptureRe buff of None \<Rightarrow> '''' | Some m \<Rightarrow> m) (time_Local env)
             = Some t)"
  shows "\<exists>p. rfc3164_Parse env (rfc3164_NewParser env buff) = Ret (None, p)
           \<and> rfc3164_Dump p =
                [''timestamp'' \<mapsto> VTime (fixTimestampIfNeeded env t),
                 ''hostname'' \<mapsto> VString (case sonicWallHostnameCaptureRe buff of
                                                None \<Rightarrow> '''' | Some m \<Rightarrow> m),
                 ''tag'' \<mapsto> VString '''',
                 ''content'' \<mapsto> VString buff,
                 ''priority'' \<mapsto> VInt (Priority_P pri),
                 ''facility'' \<mapsto> VInt (Facility_Value pri),
                 ''severity'' \<mapsto> VInt (Severity_Value pri)]"
proof -
  from rfc3164_Parse_sonicwall [OF assms] obtain p where
    p: "rfc3164_Parse env (rfc3164_NewParser env buff) = Ret (None, p)"
      "p3164_priority p = pri"
      "p3164_message p = \<lparr> msg_tag = '''', msg_content = buff \<rparr>"
      "p3164_header p =
         \<lparr> hdr3164_timestamp = fixTimestampIfNeeded env t,
           hdr3164_hostname = (case sonicWallHostnameCaptureRe buff of
                                 None \<Rightarrow> '''' | Some m \<Rightarrow> m) \<rparr>"
    by blast
  have "rfc3164_Dump p =
                [''timestamp'' \<mapsto> VTime (fixTimestampIfNeeded env t),
                 ''hostname'' \<mapsto> VString (case sonicWallHostnameCaptureRe buff of
                                                None \<Rightarrow> '''' | Some m \<Rightarrow> m),
                 ''tag'' \<mapsto> VString '''',
                 ''content'' \<mapsto> VString buff,
                 ''priority'' \<mapsto> VInt (Priority_P pri),
                 ''facility'' \<mapsto> VInt (Facility_Value pri),
                 ''severity'' \<mapsto> VInt (Severity_Value pri)]"
    unfolding rfc3164_Dump_def p(2,3,4) by simp
  with p(1) show ?thesis by blast
qed

text \<open>The SonicWall line of the parser's test: 2016-08-19 18:05:44 UTC, from 10.205.123.15.\<close>

theorem rfc3164_sonicwall_witness:
  "ParsePriority go_env sonicwall_line 0 (length sonicwall_line)
      = (Inr \<lparr> Priority_P = 34, Facility_Value = 4, Severity_Value = 2 \<rparr>, 4)
   \<and> time_ParseInLocation go_env time_Stamp (take (length time_Stamp) (drop 4 sonicwall_line))
         (time_Local go_env) = None
   \<and> time_ParseInLocation go_env time_RFC3339 (take (length time_RFC3339) (drop 4 sonicwall_line))
         (time_Local go_env) = None
   \<and> \<not> ciscoASARegexp_MatchString sonicwall_line
   \<and> strings_Contains sonicwall_line (''time='' @ [dquote])
   \<and> sonicWallTimestampCaptureRe sonicwall_line = Some ''2016-08-19 18:05:44 UTC''
   \<and> (\<exists>p. rfc3164_Parse go_env (rfc3164_NewParser go_env sonicwall_line) = Ret (None, p)
           \<and> rfc3164_Dump p =
                [''timestamp'' \<mapsto> VTime (Instant 1471629944 0 (Zone ''UTC'' 0)),
                 ''hostname'' \<mapsto> VString ''10.205.123.15'',
                 ''tag'' \<mapsto> VString '''',
                 ''content'' \<mapsto> VString sonicwall_line,
                 ''priority'' \<mapsto> VInt 34,
                 ''facility'' \<mapsto> VInt 4,
                 ''severity'' \<mapsto> VInt 2])"
proof -
  have h1: "ParsePriority go_env sonicwall_line 0 (length sonicwall_line)
      = (Inr \<lparr> Priority_P = 34, Facility_Value = 4, Severity_Value = 2 \<rparr>, 4)"
    by code_simp
  have h2: "4 < length sonicwall_line"
    by code_simp
  have s3: "time_ParseInLocation go_env time_Stamp
              (take (length time_Stamp) (drop 4 sonicwall_line)) (time_Local go_env) = None"
    by code_simp
  have s4: "time_ParseInLocation go_env time_RFC3339
              (take (length time_RFC3339) (drop 4 sonicwall_line)) (time_Local go_env) = None"
    by code_simp
  have h5: "\<not> ciscoASARegexp_MatchString sonicwall_line"
    by code_simp
  have h6: "strings_Contains sonicwall_line (''time='' @ [dquote])"
    by code_simp
  have cap: "sonicWallTimestampCaptureRe sonicwall_line = Some ''2016-08-19 18:05:44 UTC''"
    by code_simp
  have s7: "time_ParseInLocation go_env ''2006-01-02 15:04:05 MST''
          (case sonicWallTimestampCaptureRe sonicwall_line of None \<Rightarrow> '''' | Some m \<Rightarrow> m)
          (time_Local go_env)
         = Some (Instant 1471629944 0 (Zone ''UTC'' 0))"
    by code_simp
  have fx: "fixTimestampIfNeeded go_env (Instant 1471629944 0 (Zone ''UTC'' 0))
              = Instant 1471629944 0 (Zone ''UTC'' 0)"
    by code_simp
  have fw: "sonicWallHostnameCaptureRe sonicwall_line = Some ''10.205.123.15''"
    by code_simp
  from s3 have h3: "length sonicwall_line < 4 + length time_Stamp
           \<or> time_ParseInLocation go_env time_Stamp
                (take (length time_Stamp) (drop 4 sonicwall_line)) (time_Local go_env) = None"
    by (rule disjI2)
  from s4 have h4: "length sonicwall_line < 4 + length time_RFC3339
           \<or> time_ParseInLocation go_env time_RFC3339
                (take (length time_RFC3339) (drop 4 sonicwall_line)) (time_Local go_env) = None"
    by (rule disjI2)
  note h7 = disjI1 [OF s7]
  from rfc3164_sonicwall [OF h1 h2 h3 h4 h5 h6 h7]
  have "\<exists>p. rfc3164_Parse go_env (rfc3164_NewParser go_env sonicwall_line) = Ret (None, p)
           \<and> rfc3164_Dump p =
                [''timestamp'' \<mapsto> VTime (Instant 1471629944 0 (Zone ''UTC'' 0)),
                 ''hostname'' \<mapsto> VString ''10.205.123.15'',
                 ''tag'' \<mapsto> VString '''',
                 ''content'' \<mapsto> VString sonicwall_line,
                 ''priority'' \<mapsto> VInt 34,
                 ''facility'' \<mapsto> VInt 4,
                 ''severity'' \<mapsto> VInt 2]"
    unfolding fx fw by simp
  with h1 s3 s4 h5 h6 cap show ?thesis by blast
qed

text \<open>
  The claim as stated fails on a line sent to the SonicWall dialect whose \<^verbatim>\<open>time="..."\<close>
  field is not a date: \<^verbatim>\<open>parseTimestamp\<close> reports the SonicWall sentinel and the pattern
  captures the address 1.2.3.4, but \<^verbatim>\<open>Parse\<close> returns an error and the host name stays empty.
\<close>

theorem rfc3164_sonicwall_counterexample:
  "(case rfc3164_parseTimestamp go_env
           ((rfc3164_NewParser go_env sonicwall_bad_line)\<lparr> p3164_cursor := 4 \<rparr>) of
      Panic \<Rightarrow> False
    | Ret ((ts, e), q) \<Rightarrow> e = Some ErrSonicOSFormat)
   \<and> sonicWallHostnameCaptureRe sonicwall_bad_line = Some ''1.2.3.4''
   \<and> (case rfc3164_Parse go_env (rfc3164_NewParser go_env sonicwall_bad_line) of
        Panic \<Rightarrow> False
      | Ret (err, p) \<Rightarrow>
          err = Some (Errorf ''failed to parse time in SonicWall log'' sonicwall_bad_line)
          \<and> rfc3164_Dump p ''hostname'' = Some (VString '''')
          \<and> rfc3164_Dump p ''hostname'' \<noteq> Some (VString ''1.2.3.4''))"
  by code_simp

text \<open>
  The host name fallback on the output of the RFC 3164 parser: a message without priority
  has no host name, and the record gets the client address up to its colon.
\<close>

theorem hostname_fallback_witness:
  "format_ident (format_RFC3164 go_env) = RFC3164
   \<and> (case GetParser_run (format_RFC3164 go_env) ''Oct 11 22:14:15 Testing no priority'' of
        Panic \<Rightarrow> False
      | Ret (err, parts) \<Rightarrow> err = None \<and> map_read parts ''hostname'' = VString '''')
   \<and> (\<exists>parts' n. Server_parser go_env (format_RFC3164 go_env)
                      ''Oct 11 22:14:15 Testing no priority'' ''192.168.1.10:514'' ''''
                    = Ret (parts', n, None)
          \<and> parts' ''hostname'' = Some (VString ''192.168.1.10''))"
proof -
  let ?line = "''Oct 11 22:14:15 Testing no priority''"
  have h: "fst (ParsePriority go_env ?line 0 (length ?line)) = Inl (ErrScanner ''priority'')"
    by (simp add: go_env_ParsePriority ParsePriority_spec_def upto_l_def)
  from rfc3164_Parse_no_priority [OF h] obtain p where
    p: "rfc3164_Parse go_env (rfc3164_NewParser go_env ?line) = Ret (None, p)"
      "p3164_header p = \<lparr> hdr3164_timestamp = time_UTC go_env (time_Now go_env), hdr3164_hostname = '''' \<rparr>"
    by blast
  have g: "GetParser_run (format_RFC3164 go_env) ?line = Ret (None, rfc3164_Dump p)"
    by (simp add: format_RFC3164_def p(1))
  have e: "map_read (rfc3164_Dump p) ''hostname'' = VString ''''"
    by (simp add: rfc3164_Dump_def map_read_def p(2))
  have i: "format_ident (format_RFC3164 go_env) = RFC3164 \<or> format_ident (format_RFC3164 go_env) = Automatic"
    by (simp add: format_RFC3164_def)
  have f: "format_ident (format_RFC3164 go_env) = RFC3164"
    by (simp add: format_RFC3164_def)
  from hostname_fallback [OF g e i, of go_env "''192.168.1.10:514''" "''''"]
  have "\<exists>parts' n. Server_parser go_env (format_RFC3164 go_env) ?line ''192.168.1.10:514'' ''''
                    = Ret (parts', n, None)
          \<and> parts' ''hostname'' = Some (VString ''192.168.1.10'')"
    by simp
  with f g e show ?thesis by simp
qed


section \<open>Properties of the RFC 5424 parser\<close>

lemma same_input_refl [simp]: "same_input p p"
  by (simp add: same_input_def)

lemma same_input_cursor [simp]:
  "same_input p (q\<lparr> p5424_cursor := c \<rparr>) = same_input p q"
  "same_input p (q\<lparr> p5424_isUnixTimestamp := b \<rparr>) = same_input p q"
  by (simp_all add: same_input_def)

lemma parseTimestamp_rest_same:
  "same_input p (snd (rfc5424_parseTimestamp_rest env ts fd p))"
  by (simp add: rfc5424_parseTimestamp_rest_def Let_def split: prod.splits sum.splits)

lemma parseTimestamp_rest_same':
  "same_input p q \<Longrightarrow> same_input p (snd (rfc5424_parseTimestamp_rest env ts fd q))"
  using parseTimestamp_rest_same [of q env ts fd] by (simp add: same_input_def)

lemma parseTimestamp_same:
  "same_input p (snd (rfc5424_parseTimestamp env p))"
  by (simp add: rfc5424_parseTimestamp_def Let_def parseTimestamp_rest_same'
      split: prod.splits sum.splits option.splits)

lemma parseHeader_same:
  "same_input p (snd (rfc5424_parseHeader env p))"
proof -
  have ts: "same_input p (snd (rfc5424_parseTimestamp env (p\<lparr> p5424_cursor := c \<rparr>)))" for c
    using parseTimestamp_same [of "p\<lparr> p5424_cursor := c \<rparr>" env] by (simp add: same_input_def)
  have ts': "rfc5424_parseTimestamp env (p\<lparr> p5424_cursor := c \<rparr>) = (r, q) \<Longrightarrow> same_input p q" for c r q
    using ts [of c] by simp
  show ?thesis
    by (auto simp: rfc5424_parseHeader_def Let_def dest: ts'
        split: prod.splits sum.splits option.splits)
qed

text \<open>
  Claim C7. Whatever the buffer, and whether \<^verbatim>\<open>Parse\<close> of a new RFC 5424 parser returns an
  error or not, the parser's message, and the \<^verbatim>\<open>message\<close> field of \<^verbatim>\<open>Dump\<close>, is the whole
  buffer.
\<close>

theorem rfc5424_message_is_buffer:
  "p5424_message (snd (rfc5424_Parse env (rfc5424_NewParser env buff))) = buff
   \<and> rfc5424_Dump (snd (rfc5424_Parse env (rfc5424_NewParser env buff))) ''message''
       = Some (VString buff)"
proof -
  let ?p = "(rfc5424_NewParser env buff)\<lparr> p5424_message := buff,
              p5424_header := (p5424_header (rfc5424_NewParser env buff))
                 \<lparr> hdr5424_timestamp := time_Round_Second env (time_Now env) \<rparr> \<rparr>"
  have "same_input ?p (snd (rfc5424_parseHeader env ?p))" by (rule parseHeader_same)
  then have m: "p5424_message (snd (rfc5424_parseHeader env ?p)) = buff"
    by (simp add: same_input_def)
  have b: "p5424_buff (rfc5424_NewParser env buff) = buff"
    by (simp add: rfc5424_NewParser_def)
  have "p5424_message (snd (rfc5424_Parse env (rfc5424_NewParser env buff))) = buff"
    using m unfolding rfc5424_Parse_def Let_def b
    by (auto split: prod.splits sum.splits option.splits)
  then show ?thesis by (simp add: rfc5424_Dump_def)
qed

text \<open>On a line without priority \<^verbatim>\<open>Parse\<close> fails, and the message is the line.\<close>

theorem rfc5424_message_is_buffer_witness:
  "fst (rfc5424_Parse go_env (rfc5424_NewParser go_env ''not a syslog line''))
     = Some (ErrScanner ''priority'')
   \<and> rfc5424_Dump (snd (rfc5424_Parse go_env (rfc5424_NewParser go_env ''not a syslog line'')))
         ''message'' = Some (VString ''not a syslog line'')"
proof -
  have "fst (rfc5424_Parse go_env (rfc5424_NewParser go_env ''not a syslog line''))
          = Some (ErrScanner ''priority'')"
    by (simp add: rfc5424_Parse_def rfc5424_parseHeader_def Let_def rfc5424_NewParser_def
        go_env_ParsePriority ParsePriority_spec_def upto_l_def)
  with rfc5424_message_is_buffer [of go_env "''not a syslog line''"] show ?thesis by simp
qed

end
